theory Spec2Isabelle
  imports Complex_Main
begin

section \<open>Values crossing the boundary of the program\<close>

text \<open>
  The TypeScript interfaces \<open>AnalysisResult\<close>, \<open>BoundingBox\<close> and \<open>DetectedObject\<close> of
  \<open>types.ts\<close> are erased at run time, and \<open>JSON.parse(...) as AnalysisResult\<close> is a
  type assertion without any check. What the service functions return, and what the
  component stores, is therefore whatever JSON value the backend sent. The model keeps
  that: results are values of \<open>json\<close>, and the interface \<open>AnalysisResult\<close> is the
  predicate \<open>is_AnalysisResult\<close> on them. A JSON number is a double; it is modelled by the
  real number it denotes.
\<close>

datatype json =
    JNull
  | JBool bool
  | JNum real
  | JStr string
  | JArr "json list"
  | JObj "(string \<times> json) list"

text \<open>A JavaScript value read from a property: \<open>None\<close> is \<open>undefined\<close>.\<close>

type_synonym jsvalue = "json option"

text \<open>
  A thrown value: an instance of \<open>Error\<close> with its message, or any other thrown value
  (for which \<open>error instanceof Error\<close> is false).
\<close>

datatype thrown = JsError string | NonError

text \<open>The member \<open>k\<close> of a parsed JSON object; a value that is not an object has no member.\<close>

fun field :: "json \<Rightarrow> string \<Rightarrow> json option" where
  "field (JObj kvs) k = map_of kvs k"
| "field _ k = None"

text \<open>
  The property access \<open>v.k\<close> for the two names the program reads (\<open>detections\<close> and
  \<open>movementDescription\<close>, neither of which is a built-in property of a string, number,
  boolean or array): reading a property of \<open>null\<close> throws a \<open>TypeError\<close>, an object
  gives its member or \<open>undefined\<close>, every other value gives \<open>undefined\<close>.
  The message of the \<open>TypeError\<close> is the engine's own: \<open>te k\<close> is the text the
  engine writes when property \<open>k\<close> of \<open>null\<close> is read, a parameter of every function
  that reads a property.
\<close>

type_synonym engine_text = "string \<Rightarrow> string"

fun get_prop :: "engine_text \<Rightarrow> json \<Rightarrow> string \<Rightarrow> thrown + jsvalue" where
  "get_prop te JNull k = Inl (JsError (te k))"
| "get_prop te v k = Inr (field v k)"

text \<open>JavaScript truthiness, as used by \<open>||\<close> and \<open>if\<close>.\<close>

fun truthy :: "jsvalue \<Rightarrow> bool" where
  "truthy None = False"
| "truthy (Some JNull) = False"
| "truthy (Some (JBool b)) = b"
| "truthy (Some (JNum x)) = (x \<noteq> 0)"
| "truthy (Some (JStr s)) = (s \<noteq> [])"
| "truthy (Some (JArr xs)) = True"
| "truthy (Some (JObj kvs)) = True"

text \<open>The expression \<open>d || []\<close>.\<close>

definition or_empty_array :: "jsvalue \<Rightarrow> json" where
  "or_empty_array d = (case d of None \<Rightarrow> JArr [] | Some v \<Rightarrow> if truthy d then v else JArr [])"

text \<open>The interface \<open>AnalysisResult\<close> of \<open>types.ts\<close>, as a check on a JSON value.\<close>

definition is_AnalysisResult :: "json \<Rightarrow> bool" where
  "is_AnalysisResult v =
     (case (field v ''objectName'', field v ''movementDescription'', field v ''confidence'') of
        (Some (JStr n), Some (JStr d), Some (JNum c)) \<Rightarrow> True
      | _ \<Rightarrow> False)"

section \<open>The service module: requests to the hosted model\<close>

datatype schema =
    SString
  | SNumber
  | SArray schema
  | SObject "(string \<times> schema) list" "string list"

definition motionAnalysisSchema :: schema where
  "motionAnalysisSchema =
     SObject [(''objectName'', SString), (''movementDescription'', SString), (''confidence'', SNumber)]
             [''objectName'', ''movementDescription'', ''confidence'']"

definition liveDetectionSchema :: schema where
  "liveDetectionSchema =
     SObject
       [(''detections'',
          SArray (SObject
            [(''objectName'', SString),
             (''boundingBox'',
                SObject [(''x_min'', SNumber), (''y_min'', SNumber), (''x_max'', SNumber), (''y_max'', SNumber)]
                        [''x_min'', ''y_min'', ''x_max'', ''y_max''])]
            [''objectName'', ''boundingBox'']))]
       [''detections'']"

datatype part = TextPart string | InlineData string string

record request =
  model :: string
  parts :: "part list"
  responseMimeType :: string
  responseSchema :: schema

text \<open>
  The text of a response, seen through \<open>JSON.parse\<close>: either the text is not JSON (or
  \<open>response.text\<close> is \<open>undefined\<close>) and \<open>JSON.parse\<close> throws a \<open>SyntaxError\<close> with a
  message, or it denotes a JSON value. An object is given by its members, each key once.
\<close>

datatype response_text = Unparsable string | Parses json

fun JSON_parse :: "response_text \<Rightarrow> thrown + json" where
  "JSON_parse (Unparsable msg) = Inl (JsError msg)"
| "JSON_parse (Parses v) = Inr v"

text \<open>
  The hosted model is a parameter \<open>ai\<close> of the service functions: it maps the request of
  \<open>ai.models.generateContent\<close> to a thrown value or to the text of the response.
\<close>

type_synonym backend = "request \<Rightarrow> thrown + response_text"

text \<open>What the program does to the outside, in the order it does it.\<close>

datatype effect =
    Captured string
  | Waited nat
  | GenerateContent request
  | ConsoleError string

definition motionPrompt :: string where
  "motionPrompt = ''You are a visual analysis expert. These are two sequential frames from a video, captured approximately half a second apart. Your task is to identify the main object that has moved between frame 1 and frame 2. Describe the object and its movement (e.g., 'A red car moving to the left', 'A person's hand waving up'). If no object has moved, state that. Provide your analysis in the requested JSON format.''"

definition detectionPrompt :: string where
  "detectionPrompt = ''You are an expert object detector. Analyze this image and identify all significant objects. For each object, provide its name and a normalized bounding box (coordinates from 0 to 1 for x_min, y_min, x_max, y_max). If no objects are found, return an empty array for the 'detections' property.''"

definition motionRequest :: "string \<Rightarrow> string \<Rightarrow> request" where
  "motionRequest frame1B64 frame2B64 =
     \<lparr>model = ''gemini-2.5-flash'',
      parts = [TextPart motionPrompt,
               InlineData ''image/jpeg'' frame1B64,
               InlineData ''image/jpeg'' frame2B64],
      responseMimeType = ''application/json'',
      responseSchema = motionAnalysisSchema\<rparr>"

definition detectionRequest :: "string \<Rightarrow> request" where
  "detectionRequest frameB64 =
     \<lparr>model = ''gemini-2.5-flash'',
      parts = [TextPart detectionPrompt, InlineData ''image/jpeg'' frameB64],
      responseMimeType = ''application/json'',
      responseSchema = liveDetectionSchema\<rparr>"

text \<open>
  \<open>analyzeMotion\<close>: the request is sent, the text of the response is parsed and returned
  as it is. Whatever is thrown inside the \<open>try\<close> is logged and thrown again as an \<open>Error\<close>
  with a new message. The result is the list of effects and the outcome of the promise.
\<close>

definition analyzeMotion :: "backend \<Rightarrow> string \<Rightarrow> string \<Rightarrow> effect list \<times> (thrown + json)" where
  "analyzeMotion ai frame1B64 frame2B64 =
     (let req = motionRequest frame1B64 frame2B64 in
      case (case ai req of Inl e \<Rightarrow> Inl e | Inr txt \<Rightarrow> JSON_parse txt) of
        Inr v \<Rightarrow> ([GenerateContent req], Inr v)
      | Inl (JsError m) \<Rightarrow>
          ([GenerateContent req, ConsoleError ''Error analyzing motion:''],
           Inl (JsError (''Failed to analyze motion with Gemini API: '' @ m)))
      | Inl NonError \<Rightarrow>
          ([GenerateContent req, ConsoleError ''Error analyzing motion:''],
           Inl (JsError ''An unknown error occurred during motion analysis.'')))"

text \<open>
  \<open>detectObjectsInFrame\<close>: as above, and the value returned is
  \<open>result.detections || []\<close>.
\<close>

definition detectObjectsInFrame :: "engine_text \<Rightarrow> backend \<Rightarrow> string \<Rightarrow> effect list \<times> (thrown + json)" where
  "detectObjectsInFrame te ai frameB64 =
     (let req = detectionRequest frameB64 in
      case (case ai req of
              Inl e \<Rightarrow> Inl e
            | Inr txt \<Rightarrow>
                (case JSON_parse txt of
                   Inl e \<Rightarrow> Inl e
                 | Inr result \<Rightarrow>
                     (case get_prop te result ''detections'' of
                        Inl e \<Rightarrow> Inl e
                      | Inr d \<Rightarrow> Inr (or_empty_array d)))) of
        Inr v \<Rightarrow> ([GenerateContent req], Inr v)
      | Inl (JsError m) \<Rightarrow>
          ([GenerateContent req, ConsoleError ''Error detecting objects:''],
           Inl (JsError (''Failed to detect objects with Gemini API: '' @ m)))
      | Inl NonError \<Rightarrow>
          ([GenerateContent req, ConsoleError ''Error detecting objects:''],
           Inl (JsError ''An unknown error occurred during object detection.'')))"

text \<open>Two backends used to run the program on concrete inputs.\<close>

definition backend_replies :: "response_text \<Rightarrow> backend" where
  "backend_replies txt req = Inr txt"

definition backend_throws :: "thrown \<Rightarrow> backend" where
  "backend_throws e req = Inl e"

section \<open>The component \<open>App\<close>\<close>

text \<open>
  The state of the component is its eight \<open>useState\<close> variables and its four refs,
  together with the part of the browser the handlers act on: the timers that are armed,
  the media streams whose tracks are running, and the trace of effects. Each handler is a
  function from the state before to the state after, run as one step, and a \<open>set...\<close>
  call takes effect at once. A handler called from a rendered button is the function of
  the latest render: the state variables it reads are those of the current state.
  \<open>runLiveDetection\<close> is also called by the repeating timer, and \<open>setInterval\<close> keeps
  the function of the render in which detection was switched on: the \<open>isCameraOn\<close> a
  tick reads is the one of that render. It is a parameter of \<open>runLiveDetection\<close>, and
  the armed timer holds it.
  What the outside answers (the camera permission, the image the canvas encodes, the
  backend, \<open>document.hidden\<close>) is a parameter of the handler.
\<close>

datatype Mode = Motion | Live

text \<open>
  The two callbacks the component hands to the timer functions of the browser:
  \<open>runLiveDetection\<close> (to \<open>setInterval\<close>), with the \<open>isCameraOn\<close> it closes over,
  and \<open>() => setTransientMessage(null)\<close> (to \<open>setTimeout\<close>).
\<close>

datatype callback = RunLiveDetection bool | ClearTransientMessage

text \<open>An armed timer: repeating or one-shot, with its callback and its time in ms.\<close>

datatype timer = Interval callback nat | Timeout callback nat

fun callback_of :: "timer \<Rightarrow> callback" where
  "callback_of (Interval cb ms) = cb"
| "callback_of (Timeout cb ms) = cb"

record app =
  mode :: Mode
  isCameraOn :: bool
  isAnalyzing :: bool
  isDetecting :: bool
  analysisResult :: json
  detections :: json
  transientMessage :: jsvalue
  error :: "string option"
  videoRef :: "nat option option"
  canvasRef :: "bool option"
  detectionIntervalRef :: "nat option"
  transientMessageTimeoutRef :: "nat option"
  timers :: "(nat \<times> timer) list"
  lastHandle :: nat
  liveStreams :: "nat list"
  streamsOpened :: nat
  effects :: "effect list"

text \<open>
  \<open>videoRef\<close> is \<open>None\<close> when \<open>videoRef.current\<close> is null, and otherwise holds the
  \<open>srcObject\<close> of the video element (the handle of a stream, or \<open>None\<close> for null).
  \<open>canvasRef\<close> is \<open>None\<close> when \<open>canvasRef.current\<close> is null, and otherwise tells whether
  \<open>getContext('2d')\<close> gives a context. \<open>analysisResult = JNull\<close> and
  \<open>transientMessage = Some JNull\<close> are the value \<open>null\<close>.

  The component as first rendered: the video and canvas elements are mounted.
\<close>

definition initial :: app where
  "initial =
     \<lparr>mode = Motion, isCameraOn = False, isAnalyzing = False, isDetecting = False,
      analysisResult = JNull, detections = JArr [], transientMessage = Some JNull,
      error = None, videoRef = Some None, canvasRef = Some True,
      detectionIntervalRef = None, transientMessageTimeoutRef = None,
      timers = [], lastHandle = 0, liveStreams = [], streamsOpened = 0, effects = []\<rparr>"

subsection \<open>Timers of the browser\<close>

text \<open>
  \<open>setTimeout\<close> and \<open>setInterval\<close> hand out handles from one pool, each greater than
  zero; \<open>clearTimeout\<close> and \<open>clearInterval\<close> remove the timer with the given handle,
  if there is one.
\<close>

definition window_setTimeout :: "callback \<Rightarrow> nat \<Rightarrow> app \<Rightarrow> nat \<times> app" where
  "window_setTimeout cb ms s =
     (let h = Suc (lastHandle s)
      in (h, s\<lparr>lastHandle := h, timers := timers s @ [(h, Timeout cb ms)]\<rparr>))"

definition window_setInterval :: "callback \<Rightarrow> nat \<Rightarrow> app \<Rightarrow> nat \<times> app" where
  "window_setInterval cb ms s =
     (let h = Suc (lastHandle s)
      in (h, s\<lparr>lastHandle := h, timers := timers s @ [(h, Interval cb ms)]\<rparr>))"

definition clearTimer :: "nat \<Rightarrow> app \<Rightarrow> app" where
  "clearTimer h s = s\<lparr>timers := filter (\<lambda>ht. fst ht \<noteq> h) (timers s)\<rparr>"

text \<open>
  \<open>if (ref.current) clearTimeout(ref.current)\<close>: a ref that is null, or holds 0, is
  falsy and nothing is cleared.
\<close>

definition clear_if_set :: "nat option \<Rightarrow> app \<Rightarrow> app" where
  "clear_if_set r s = (case r of None \<Rightarrow> s | Some h \<Rightarrow> if h = 0 then s else clearTimer h s)"

text \<open>The handles of the armed timers that run the callback \<open>cb\<close>.\<close>

definition pending :: "callback \<Rightarrow> app \<Rightarrow> nat list" where
  "pending cb s = map fst (filter (\<lambda>ht. callback_of (snd ht) = cb) (timers s))"

text \<open>
  \<open>await new Promise(resolve => setTimeout(resolve, ms))\<close>: the handler is resumed
  after \<open>ms\<close> milliseconds; the timer has taken a handle and is gone.
\<close>

definition delay :: "nat \<Rightarrow> app \<Rightarrow> app" where
  "delay ms s = s\<lparr>lastHandle := Suc (lastHandle s), effects := effects s @ [Waited ms]\<rparr>"

subsection \<open>Handlers\<close>

definition clearState :: "app \<Rightarrow> app" where
  "clearState s =
     s\<lparr>error := None, analysisResult := JNull, detections := JArr [], transientMessage := Some JNull\<rparr>"

text \<open>The cleanup of the \<open>useEffect\<close>, run when the component is unmounted.\<close>

definition unmount :: "app \<Rightarrow> app" where
  "unmount s = clear_if_set (transientMessageTimeoutRef s) (clear_if_set (detectionIntervalRef s) s)"

text \<open>What \<open>navigator.mediaDevices.getUserMedia\<close> answers.\<close>

datatype media = Granted | Rejected thrown

text \<open>
  \<open>startCamera\<close> clears the results and asks for the camera; what follows the
  \<open>await\<close> runs when the request is answered, in the state of that moment.
\<close>

definition startCamera_settled :: "media \<Rightarrow> app \<Rightarrow> app" where
  "startCamera_settled m s1 =
     (case m of
        Granted \<Rightarrow>
          (let stream = Suc (streamsOpened s1);
               s2 = s1\<lparr>streamsOpened := stream, liveStreams := liveStreams s1 @ [stream]\<rparr>
           in case videoRef s2 of
                None \<Rightarrow> s2
              | Some src \<Rightarrow> s2\<lparr>videoRef := Some (Some stream), isCameraOn := True\<rparr>)
      | Rejected err \<Rightarrow>
          s1\<lparr>effects := effects s1 @ [ConsoleError ''Error accessing camera:''],
             error := Some ''Could not access the camera. Please ensure permissions are granted and try again.'',
             isCameraOn := False\<rparr>)"

text \<open>The whole of \<open>startCamera\<close>, when nothing else happens before the answer.\<close>

definition startCamera :: "media \<Rightarrow> app \<Rightarrow> app" where
  "startCamera m s = startCamera_settled m (clearState s)"

definition stopCamera :: "app \<Rightarrow> app" where
  "stopCamera s =
     (let s1 = (case detectionIntervalRef s of
                  None \<Rightarrow> s
                | Some h \<Rightarrow> if h = 0 then s else (clearTimer h s)\<lparr>detectionIntervalRef := None\<rparr>);
          s2 = s1\<lparr>isDetecting := False\<rparr>;
          s3 = (case videoRef s2 of
                  Some (Some stream) \<Rightarrow>
                    s2\<lparr>liveStreams := filter (\<lambda>t. t \<noteq> stream) (liveStreams s2), videoRef := Some None\<rparr>
                | _ \<Rightarrow> s2)
      in clearState (s3\<lparr>isCameraOn := False\<rparr>))"

text \<open>
  \<open>captureFrame\<close>: \<open>img\<close> is the base64 text that \<open>canvas.toDataURL\<close> gives for the
  current frame of the video.
\<close>

definition captureFrame :: "string \<Rightarrow> app \<Rightarrow> app \<times> (thrown + string)" where
  "captureFrame img s =
     (case (videoRef s, canvasRef s) of
        (Some src, Some context) \<Rightarrow>
          if context then (s\<lparr>effects := effects s @ [Captured img]\<rparr>, Inr img)
          else (s, Inl (JsError ''Could not get 2D context from canvas''))
      | _ \<Rightarrow> (s, Inl (JsError ''Video or canvas ref not available'')))"

text \<open>
  The body of the \<open>try\<close> of \<open>handleAnalyzeMotion\<close>: the state where it ends, and what it
  threw, if it threw.
\<close>

definition analyzeMotion_try ::
  "engine_text \<Rightarrow> string \<Rightarrow> string \<Rightarrow> backend \<Rightarrow> app \<Rightarrow> app \<times> thrown option" where
  "analyzeMotion_try te img1 img2 ai s =
     (case captureFrame img1 s of
        (s1, Inl e) \<Rightarrow> (s1, Some e)
      | (s1, Inr frame1) \<Rightarrow>
          (case captureFrame img2 (delay 500 s1) of
             (s2, Inl e) \<Rightarrow> (s2, Some e)
           | (s2, Inr frame2) \<Rightarrow>
               (case analyzeMotion ai frame1 frame2 of
                  (fx, Inl e) \<Rightarrow> (s2\<lparr>effects := effects s2 @ fx\<rparr>, Some e)
                | (fx, Inr result) \<Rightarrow>
                    (let s3 = s2\<lparr>effects := effects s2 @ fx, analysisResult := result\<rparr>
                     in case get_prop te result ''movementDescription'' of
                          Inl e \<Rightarrow> (s3, Some e)
                        | Inr d \<Rightarrow>
                            (let s4 = s3\<lparr>transientMessage := d\<rparr>;
                                 s5 = clear_if_set (transientMessageTimeoutRef s4) s4;
                                 (h, s6) = window_setTimeout ClearTransientMessage 5000 s5
                             in (s6\<lparr>transientMessageTimeoutRef := Some h\<rparr>, None))))))"

definition handleAnalyzeMotion :: "engine_text \<Rightarrow> string \<Rightarrow> string \<Rightarrow> backend \<Rightarrow> app \<Rightarrow> app" where
  "handleAnalyzeMotion te img1 img2 ai s =
     (if \<not> isCameraOn s then s
      else
        (let s1 = (clearState s)\<lparr>isAnalyzing := True\<rparr>;
             s2 = (case analyzeMotion_try te img1 img2 ai s1 of
                     (t, None) \<Rightarrow> t
                   | (t, Some (JsError msg)) \<Rightarrow> t\<lparr>error := Some (''Analysis failed: '' @ msg)\<rparr>
                   | (t, Some NonError) \<Rightarrow>
                       t\<lparr>error := Some (''Analysis failed: '' @ ''An unexpected error occurred.'')\<rparr>)
         in s2\<lparr>isAnalyzing := False\<rparr>))"

text \<open>
  \<open>cameraOn\<close> is the \<open>isCameraOn\<close> of the render whose \<open>runLiveDetection\<close> this is;
  \<open>hidden\<close> is \<open>document.hidden\<close> at the moment of the call.
\<close>

definition runLiveDetection ::
  "engine_text \<Rightarrow> bool \<Rightarrow> bool \<Rightarrow> string \<Rightarrow> backend \<Rightarrow> app \<Rightarrow> app" where
  "runLiveDetection te cameraOn hidden img ai s =
     (if \<not> cameraOn \<or> hidden then s
      else
        (case captureFrame img s of
           (s1, Inl (JsError msg)) \<Rightarrow> s1\<lparr>effects := effects s1 @ [ConsoleError (''Detection failed: '' @ msg)]\<rparr>
         | (s1, Inl NonError) \<Rightarrow>
             s1\<lparr>effects := effects s1 @ [ConsoleError (''Detection failed: '' @ ''An unexpected error occurred.'')]\<rparr>
         | (s1, Inr frame) \<Rightarrow>
             (case detectObjectsInFrame te ai frame of
                (fx, Inl (JsError msg)) \<Rightarrow>
                  s1\<lparr>effects := effects s1 @ fx @ [ConsoleError (''Detection failed: '' @ msg)]\<rparr>
              | (fx, Inl NonError) \<Rightarrow>
                  s1\<lparr>effects := effects s1 @ fx @ [ConsoleError (''Detection failed: '' @ ''An unexpected error occurred.'')]\<rparr>
              | (fx, Inr results) \<Rightarrow>
                  s1\<lparr>effects := effects s1 @ fx, detections := results, error := None\<rparr>)))"

definition toggleLiveDetection :: "engine_text \<Rightarrow> bool \<Rightarrow> string \<Rightarrow> backend \<Rightarrow> app \<Rightarrow> app" where
  "toggleLiveDetection te hidden img ai s =
     (if isDetecting s then
        (clear_if_set (detectionIntervalRef s) s)
          \<lparr>detectionIntervalRef := None, isDetecting := False, detections := JArr []\<rparr>
      else
        (let s1 = (clearState s)\<lparr>isDetecting := True\<rparr>;
             s2 = runLiveDetection te (isCameraOn s) hidden img ai s1;
             (h, s3) = window_setInterval (RunLiveDetection (isCameraOn s)) 3000 s2
         in s3\<lparr>detectionIntervalRef := Some h\<rparr>))"

text \<open>The \<open>onClick\<close> of the two mode buttons.\<close>

definition selectMode :: "Mode \<Rightarrow> app \<Rightarrow> app" where
  "selectMode m s = clearState (s\<lparr>mode := m\<rparr>)"

subsection \<open>What the browser runs later\<close>

definition run_callback ::
  "engine_text \<Rightarrow> callback \<Rightarrow> bool \<Rightarrow> string \<Rightarrow> backend \<Rightarrow> app \<Rightarrow> app" where
  "run_callback te cb hidden img ai s =
     (case cb of
        RunLiveDetection cameraOn \<Rightarrow> runLiveDetection te cameraOn hidden img ai s
      | ClearTransientMessage \<Rightarrow> s\<lparr>transientMessage := Some JNull\<rparr>)"

text \<open>
  The timer with handle \<open>h\<close> comes due. A timer that is not armed runs nothing; a
  one-shot timer is gone once it has run; a repeating one stays.
\<close>

definition fire :: "engine_text \<Rightarrow> nat \<Rightarrow> bool \<Rightarrow> string \<Rightarrow> backend \<Rightarrow> app \<Rightarrow> app" where
  "fire te h hidden img ai s =
     (case map_of (timers s) h of
        None \<Rightarrow> s
      | Some (Timeout cb ms) \<Rightarrow> run_callback te cb hidden img ai (clearTimer h s)
      | Some (Interval cb ms) \<Rightarrow> run_callback te cb hidden img ai s)"

subsection \<open>What is rendered\<close>

text \<open>
  The buttons of the JSX, as rendered in a state: the two mode buttons always, Start or
  Stop by \<open>isCameraOn\<close>, Analyze Motion (disabled while analyzing) in motion mode and the
  live-detection toggle in live mode, both only while the camera is on.
\<close>

datatype control =
    ModeButton Mode
  | StartButton
  | StopButton
  | AnalyzeButton bool
  | ToggleButton

definition controls :: "app \<Rightarrow> control list" where
  "controls s =
     [ModeButton Motion, ModeButton Live]
     @ (if \<not> isCameraOn s then [StartButton] else [StopButton])
     @ (if isCameraOn s \<and> mode s = Motion then [AnalyzeButton (isAnalyzing s)] else [])
     @ (if isCameraOn s \<and> mode s = Live then [ToggleButton] else [])"

text \<open>
  \<open>Math.round(analysisResult.confidence * 100)\<close>. \<open>Math.round x\<close> is the integer
  nearest to \<open>x\<close>, a half rounded up: \<open>\<lfloor>x + 1/2\<rfloor>\<close>. The product is a product of
  doubles: \<open>fl\<close> is the rounding of the exact product to a double.
\<close>

definition Math_round :: "real \<Rightarrow> int" where
  "Math_round x = \<lfloor>x + 1 / 2\<rfloor>"

definition confidencePercent :: "(real \<Rightarrow> real) \<Rightarrow> real \<Rightarrow> int" where
  "confidencePercent fl confidence = Math_round (fl (confidence * 100))"

text \<open>
  The rounding of a real to the nearest double, a tie going to the even significand:
  a double has 53 significant bits, so the doubles from \<open>2 ^ k\<close> to \<open>2 ^ (k + 1)\<close> are
  the multiples of \<open>2 ^ (k - 52)\<close>. The range of the exponent is left unbounded: the numbers
  rounded here lie between 0 and 100, and a number so small that the format would
  round it more coarsely rounds to a number below one half either way.
\<close>

definition round_half_even :: "real \<Rightarrow> int" where
  "round_half_even x =
     (let n = \<lfloor>x\<rfloor> in
      if x - of_int n < 1 / 2 then n
      else if 1 / 2 < x - of_int n then n + 1
      else if even n then n else n + 1)"

definition ulp :: "real \<Rightarrow> real" where
  "ulp x = 2 powr (of_int \<lfloor>log 2 \<bar>x\<bar>\<rfloor> - 52)"

definition binary64 :: "real \<Rightarrow> real" where
  "binary64 x = (if x = 0 then 0 else of_int (round_half_even (x / ulp x)) * ulp x)"

subsection \<open>Runs of the component\<close>

text \<open>
  What can happen to the mounted component: a handler is called, or a timer comes due.
  \<open>Start m\<close> is a call of \<open>startCamera\<close> answered before anything else happens;
  \<open>StartCalled\<close> and \<open>StartSettled m\<close> are the call and its answer when other events
  fall in between. \<open>after te evs\<close> is the state after the events \<open>evs\<close>, from the first
  render, in a browser whose engine writes \<open>te\<close>. Every handler may be called in every
  state, so these states include all those that the rendered buttons allow.
\<close>

datatype event =
    Start media
  | StartCalled
  | StartSettled media
  | Stop
  | Select Mode
  | Analyze string string backend
  | Toggle bool string backend
  | Due nat bool string backend

fun step :: "engine_text \<Rightarrow> app \<Rightarrow> event \<Rightarrow> app" where
  "step te s (Start m) = startCamera m s"
| "step te s StartCalled = clearState s"
| "step te s (StartSettled m) = startCamera_settled m s"
| "step te s Stop = stopCamera s"
| "step te s (Select m) = selectMode m s"
| "step te s (Analyze img1 img2 ai) = handleAnalyzeMotion te img1 img2 ai s"
| "step te s (Toggle hidden img ai) = toggleLiveDetection te hidden img ai s"
| "step te s (Due h hidden img ai) = fire te h hidden img ai s"

definition after :: "engine_text \<Rightarrow> event list \<Rightarrow> app" where
  "after te evs = foldl (step te) initial evs"

text \<open>
  The handles of the armed timers are greater than zero and at most the last handle
  handed out, and a pending timer of the banner is the one held by
  \<open>transientMessageTimeoutRef\<close>.
\<close>

definition banner_timer_tracked :: "app \<Rightarrow> bool" where
  "banner_timer_tracked s =
     ((\<forall>ht\<in>set (timers s). 0 < fst ht \<and> fst ht \<le> lastHandle s)
      \<and> (\<forall>k\<in>set (pending ClearTransientMessage s). transientMessageTimeoutRef s = Some k))"

section \<open>Concrete runs\<close>

text \<open>
  Values and states used to run the handlers on concrete inputs: a well-formed motion
  result, a detection response with two objects, the state after a successful motion
  analysis, and the state in which live detection is running.
\<close>

definition red_ball :: json where
  "red_ball =
     JObj [(''objectName'', JStr ''red ball''),
           (''movementDescription'', JStr ''rolling right''),
           (''confidence'', JNum (92 / 100))]"

definition cup :: json where
  "cup =
     JObj [(''objectName'', JStr ''cup''),
           (''boundingBox'',
              JObj [(''x_min'', JNum (1 / 10)), (''y_min'', JNum (2 / 10)),
                    (''x_max'', JNum (3 / 10)), (''y_max'', JNum (4 / 10))])]"

definition book :: json where
  "book =
     JObj [(''objectName'', JStr ''book''),
           (''boundingBox'',
              JObj [(''x_min'', JNum (5 / 10)), (''y_min'', JNum (5 / 10)),
                    (''x_max'', JNum (9 / 10)), (''y_max'', JNum (8 / 10))])]"

definition two_objects :: json where
  "two_objects = JObj [(''detections'', JArr [cup, book])]"

text \<open>The text V8 writes when property \<open>k\<close> of \<open>null\<close> is read.\<close>

definition v8_text :: engine_text where
  "v8_text k = ''Cannot read properties of null (reading '' @ [CHR 0x27] @ k @ [CHR 0x27] @ '')''"

definition camera_on :: app where
  "camera_on = startCamera Granted initial"

definition after_analysis :: app where
  "after_analysis = handleAnalyzeMotion v8_text ''A'' ''B'' (backend_replies (Parses red_ball)) camera_on"

definition detecting :: app where
  "detecting =
     toggleLiveDetection v8_text False ''F1'' (backend_replies (Parses two_objects))
       (selectMode Live camera_on)"

text \<open>
  Start is pressed twice before the camera answers; the first request is granted, live
  detection is switched on, and then the second request is rejected: the camera flag
  is off and the repeating timer is armed.
\<close>

definition camera_flag_cleared :: app where
  "camera_flag_cleared =
     after v8_text
       [StartCalled, StartCalled, StartSettled Granted, Select Live,
        Toggle False ''F1'' (backend_replies (Parses two_objects)),
        StartSettled (Rejected (JsError ''NotReadableError''))]"

section \<open>Properties\<close>

lemmas run_defs =
  initial_def camera_on_def after_analysis_def detecting_def
  red_ball_def two_objects_def backend_replies_def backend_throws_def
  startCamera_def startCamera_settled_def stopCamera_def unmount_def clearState_def selectMode_def
  handleAnalyzeMotion_def analyzeMotion_try_def captureFrame_def delay_def
  toggleLiveDetection_def runLiveDetection_def fire_def run_callback_def
  analyzeMotion_def detectObjectsInFrame_def or_empty_array_def
  window_setTimeout_def window_setInterval_def clear_if_set_def clearTimer_def
  pending_def Let_def

subsection \<open>Timers\<close>

lemma timers_clear_if_set:
  "timers (clear_if_set r s) =
     filter (\<lambda>ht. r = None \<or> r = Some 0 \<or> r \<noteq> Some (fst ht)) (timers s)"
  by (auto simp: clear_if_set_def clearTimer_def split: option.splits intro: filter_cong)

lemma timers_stopCamera:
  "timers (stopCamera s) = timers (clear_if_set (detectionIntervalRef s) s)"
  by (simp add: stopCamera_def clearState_def clear_if_set_def clearTimer_def Let_def
      split: option.splits)

lemma timers_selectMode: "timers (selectMode m s) = timers s"
  by (simp add: selectMode_def clearState_def)

lemma stopCamera_disarms_tracked_interval:
  assumes "detectionIntervalRef s = Some h" and "h \<noteq> 0"
  shows "h \<notin> fst ` set (timers (stopCamera s))"
  using assms by (auto simp: timers_stopCamera timers_clear_if_set)

text \<open>
  C1. Stopping the camera while the self-clear timer of the banner is pending: the state
  \<open>after_analysis\<close> is reached by starting the camera and running one successful
  motion analysis, which arms the timer with handle 2 (handle 1 went to the 500 ms wait).
  \<open>stopCamera\<close> clears only the timer held by \<open>detectionIntervalRef\<close>: after it the
  banner timer is still armed, and when it comes due its callback runs. The cleanup run
  at unmount clears both timers.
\<close>

theorem stopCamera_leaves_banner_timer_armed:
  "after_analysis = after v8_text [Start Granted, Analyze ''A'' ''B'' (backend_replies (Parses red_ball))]
   \<and> isCameraOn after_analysis
   \<and> transientMessageTimeoutRef after_analysis = Some 2
   \<and> timers after_analysis = [(2, Timeout ClearTransientMessage 5000)]
   \<and> isCameraOn (stopCamera after_analysis) = False
   \<and> timers (stopCamera after_analysis) = [(2, Timeout ClearTransientMessage 5000)]
   \<and> pending ClearTransientMessage (stopCamera after_analysis) = [2]
   \<and> fire te 2 hidden img ai (stopCamera after_analysis) = (stopCamera after_analysis)\<lparr>timers := []\<rparr>
   \<and> timers (unmount after_analysis) = []"
  by (simp add: after_def run_defs)

text \<open>
  C2. Switching the mode while live detection is running: the state \<open>detecting\<close> is
  reached by starting the camera, selecting live mode and toggling detection on, which
  arms the repeating timer with handle 1. The \<open>onClick\<close> of a mode button sets the mode
  and clears the results, and leaves the timer armed and \<open>isDetecting\<close> true: the next
  tick, in motion mode, captures a frame, sends it to the backend and stores the
  detections. \<open>stopCamera\<close> in the same state disarms the timer.
\<close>

theorem selectMode_leaves_detection_timer_armed:
  "detecting
     = after v8_text [Start Granted, Select Live, Toggle False ''F1'' (backend_replies (Parses two_objects))]
   \<and> isDetecting detecting
   \<and> detectionIntervalRef detecting = Some 1
   \<and> timers detecting = [(1, Interval (RunLiveDetection True) 3000)]
   \<and> mode (selectMode Motion detecting) = Motion
   \<and> isDetecting (selectMode Motion detecting)
   \<and> timers (selectMode Motion detecting) = [(1, Interval (RunLiveDetection True) 3000)]
   \<and> detections (selectMode Motion detecting) = JArr []
   \<and> detections (fire v8_text 1 False ''F2'' (backend_replies (Parses two_objects)) (selectMode Motion detecting))
       = JArr [cup, book]
   \<and> effects (fire v8_text 1 False ''F2'' (backend_replies (Parses two_objects)) (selectMode Motion detecting))
       = effects (selectMode Motion detecting) @ [Captured ''F2'', GenerateContent (detectionRequest ''F2'')]
   \<and> timers (stopCamera detecting) = []"
  by (simp add: after_def run_defs)

subsection \<open>The service functions\<close>

lemma get_prop_throws: "get_prop te v k = Inl e \<Longrightarrow> v = JNull"
  by (cases v) simp_all

lemma analyzeMotion_ok:
  "ai (motionRequest f1 f2) = Inr (Parses v) \<Longrightarrow>
   analyzeMotion ai f1 f2 = ([GenerateContent (motionRequest f1 f2)], Inr v)"
  by (simp add: analyzeMotion_def)

text \<open>
  C3, as stated: a response whose body does not match the shape of \<open>AnalysisResult\<close>
  makes \<open>analyzeMotion\<close> fail. It does not: a body with no \<open>movementDescription\<close> and
  a \<open>confidence\<close> that is a string is returned as it was parsed.
\<close>

theorem analyzeMotion_returns_malformed_body:
  "\<not> is_AnalysisResult (JObj [(''objectName'', JStr ''cat''), (''confidence'', JStr ''high'')])
   \<and> snd (analyzeMotion
            (backend_replies (Parses (JObj [(''objectName'', JStr ''cat''), (''confidence'', JStr ''high'')])))
            ''A'' ''B'')
       = Inr (JObj [(''objectName'', JStr ''cat''), (''confidence'', JStr ''high'')])"
  by (simp add: is_AnalysisResult_def analyzeMotion_def backend_replies_def)

text \<open>
  C3, amended: \<open>analyzeMotion\<close> fails exactly when the call to the backend throws or
  the text of the response is not JSON, with an \<open>Error\<close> whose message carries the
  cause; a body that is JSON is returned as parsed, whatever its shape.
\<close>

theorem analyzeMotion_fails_only_on_throw_or_syntax:
  "(ai (motionRequest f1 f2) = Inr (Parses v) \<longrightarrow> snd (analyzeMotion ai f1 f2) = Inr v)
   \<and> ((\<exists>e. snd (analyzeMotion ai f1 f2) = Inl e) \<longleftrightarrow> (\<forall>v. ai (motionRequest f1 f2) \<noteq> Inr (Parses v)))
   \<and> snd (analyzeMotion ai f1 f2) =
       (case ai (motionRequest f1 f2) of
          Inl (JsError m) \<Rightarrow> Inl (JsError (''Failed to analyze motion with Gemini API: '' @ m))
        | Inl NonError \<Rightarrow> Inl (JsError ''An unknown error occurred during motion analysis.'')
        | Inr (Unparsable m) \<Rightarrow> Inl (JsError (''Failed to analyze motion with Gemini API: '' @ m))
        | Inr (Parses v) \<Rightarrow> Inr v)"
  by (auto simp: analyzeMotion_def Let_def split: sum.splits thrown.splits response_text.splits)

theorem analyzeMotion_fails_only_on_throw_or_syntax_witness:
  "snd (analyzeMotion (backend_replies (Parses red_ball)) ''A'' ''B'') = Inr red_ball
   \<and> snd (analyzeMotion (backend_replies (Unparsable ''Unexpected token'')) ''A'' ''B'')
       = Inl (JsError ''Failed to analyze motion with Gemini API: Unexpected token'')"
  using analyzeMotion_fails_only_on_throw_or_syntax
          [of "backend_replies (Parses red_ball)" "''A''" "''B''" red_ball]
        analyzeMotion_fails_only_on_throw_or_syntax
          [of "backend_replies (Unparsable ''Unexpected token'')" "''A''" "''B''"]
  by (simp add: backend_replies_def)

subsection \<open>Starting the camera\<close>

text \<open>
  C4, as stated: in a state with an active session, \<open>startCamera\<close> creates no second
  stream. It does: called again in the state \<open>camera_on\<close>, where stream 1 is running,
  it opens stream 2 and stream 1 keeps running.
\<close>

theorem startCamera_twice_two_streams:
  "isCameraOn camera_on
   \<and> liveStreams camera_on = [1]
   \<and> liveStreams (startCamera Granted camera_on) = [1, 2]
   \<and> \<not> length (liveStreams (startCamera Granted camera_on)) \<le> 1"
  by (simp add: run_defs)

text \<open>
  C4, amended: while a session is active the Start button is not rendered, and this is
  the only guard. \<open>startCamera\<close> itself, called in a state with an active session and
  granted a stream, opens a further stream, attaches it to the video element in place
  of the one before and leaves the streams opened before running; when the request is
  rejected, the streams opened before keep running as well.
\<close>

theorem startCamera_guarded_by_rendering_only:
  assumes "isCameraOn s" and "videoRef s = Some src"
  shows "StartButton \<notin> set (controls s)
     \<and> liveStreams (startCamera Granted s) = liveStreams s @ [Suc (streamsOpened s)]
     \<and> videoRef (startCamera Granted s) = Some (Some (Suc (streamsOpened s)))
     \<and> isCameraOn (startCamera Granted s)
     \<and> liveStreams (startCamera (Rejected e) s) = liveStreams s"
  using assms
  by (simp add: controls_def startCamera_def startCamera_settled_def clearState_def Let_def)

theorem startCamera_guarded_by_rendering_only_witness:
  "isCameraOn camera_on
   \<and> videoRef camera_on = Some (Some 1)
   \<and> controls camera_on = [ModeButton Motion, ModeButton Live, StopButton, AnalyzeButton False]
   \<and> liveStreams (startCamera Granted camera_on) = liveStreams camera_on @ [2]
   \<and> videoRef (startCamera Granted camera_on) = Some (Some 2)"
proof -
  have on: "isCameraOn camera_on" and src: "videoRef camera_on = Some (Some 1)"
    and opened: "streamsOpened camera_on = 1"
    and shown: "controls camera_on = [ModeButton Motion, ModeButton Live, StopButton, AnalyzeButton False]"
    by (simp_all add: run_defs controls_def)
  from startCamera_guarded_by_rendering_only [OF on src] on src opened shown
  show ?thesis by simp
qed

subsection \<open>Motion analysis\<close>

lemma analyzeMotion_try_keeps_error:
  "analyzeMotion_try te img1 img2 ai s = (t, e) \<Longrightarrow> error t = error s"
  by (auto simp: analyzeMotion_try_def captureFrame_def delay_def Let_def window_setTimeout_def
        clear_if_set_def clearTimer_def
      split: option.splits prod.splits sum.splits if_splits)

lemma analyzeMotion_try_throw_keeps_result_cleared:
  "analyzeMotion_try te img1 img2 ai s = (t, Some e) \<Longrightarrow> analysisResult s = JNull \<Longrightarrow>
   analysisResult t = JNull"
  by (auto simp: analyzeMotion_try_def captureFrame_def delay_def Let_def
      split: option.splits prod.splits sum.splits if_splits dest: get_prop_throws)

lemma handleAnalyzeMotion_error_or_cleared:
  assumes "isCameraOn s"
  shows "error (handleAnalyzeMotion te img1 img2 ai s) = None
     \<or> analysisResult (handleAnalyzeMotion te img1 img2 ai s) = JNull
        \<and> (\<exists>cause. error (handleAnalyzeMotion te img1 img2 ai s) = Some (''Analysis failed: '' @ cause))"
proof -
  let ?s1 = "(clearState s)\<lparr>isAnalyzing := True\<rparr>"
  obtain t e where tried: "analyzeMotion_try te img1 img2 ai ?s1 = (t, e)"
    by (cases "analyzeMotion_try te img1 img2 ai ?s1")
  have cleared: "analysisResult ?s1 = JNull" "error ?s1 = None"
    by (simp_all add: clearState_def)
  show ?thesis
  proof (cases e)
    case None
    with assms tried analyzeMotion_try_keeps_error [OF tried] cleared show ?thesis
      by (simp add: handleAnalyzeMotion_def Let_def)
  next
    case (Some x)
    with assms tried analyzeMotion_try_throw_keeps_result_cleared [of te img1 img2 ai ?s1 t x] cleared
    show ?thesis
      by (cases x) (simp_all add: handleAnalyzeMotion_def Let_def)
  qed
qed

lemma handleAnalyzeMotion_causes:
  assumes "isCameraOn s"
  shows "(videoRef s = None \<or> canvasRef s = None \<longrightarrow>
            error (handleAnalyzeMotion te img1 img2 ai s)
              = Some ''Analysis failed: Video or canvas ref not available'')
      \<and> (videoRef s = Some src \<and> canvasRef s = Some False \<longrightarrow>
            error (handleAnalyzeMotion te img1 img2 ai s)
              = Some ''Analysis failed: Could not get 2D context from canvas'')
      \<and> (videoRef s = Some src \<and> canvasRef s = Some True
           \<and> snd (analyzeMotion ai img1 img2) = Inl (JsError cause) \<longrightarrow>
            error (handleAnalyzeMotion te img1 img2 ai s) = Some (''Analysis failed: '' @ cause))"
  using assms
  by (auto simp: handleAnalyzeMotion_def analyzeMotion_try_def captureFrame_def clearState_def
        delay_def Let_def
      split: option.splits prod.splits)

lemma handleAnalyzeMotion_null_body:
  assumes "isCameraOn s" and "videoRef s = Some src" and "canvasRef s = Some True"
    and "ai (motionRequest img1 img2) = Inr (Parses JNull)"
  shows "error (handleAnalyzeMotion te img1 img2 ai s)
           = Some (''Analysis failed: '' @ te ''movementDescription'')
     \<and> analysisResult (handleAnalyzeMotion te img1 img2 ai s) = JNull"
  using assms
  by (simp add: handleAnalyzeMotion_def analyzeMotion_try_def captureFrame_def clearState_def
        delay_def analyzeMotion_ok Let_def)

text \<open>
  C5. Whenever \<open>handleAnalyzeMotion\<close> runs with the camera on, \<open>isAnalyzing\<close> is false
  when it is done, whatever happened in between. If it ends with an error stored, the
  error is \<open>Analysis failed:\<close> followed by the cause and \<open>analysisResult\<close> is null; a
  failed capture and a failed backend call each store their own message, and so does
  the read of \<open>movementDescription\<close> that fails on the body \<open>null\<close>.
\<close>

theorem handleAnalyzeMotion_releases_flag_and_reports:
  assumes "isCameraOn s"
  shows "isAnalyzing (handleAnalyzeMotion te img1 img2 ai s) = False
     \<and> (error (handleAnalyzeMotion te img1 img2 ai s) = None
        \<or> analysisResult (handleAnalyzeMotion te img1 img2 ai s) = JNull
           \<and> (\<exists>cause. error (handleAnalyzeMotion te img1 img2 ai s) = Some (''Analysis failed: '' @ cause)))
     \<and> (videoRef s = None \<or> canvasRef s = None \<longrightarrow>
            error (handleAnalyzeMotion te img1 img2 ai s)
              = Some ''Analysis failed: Video or canvas ref not available'')
     \<and> (videoRef s = Some src \<and> canvasRef s = Some False \<longrightarrow>
            error (handleAnalyzeMotion te img1 img2 ai s)
              = Some ''Analysis failed: Could not get 2D context from canvas'')
     \<and> (videoRef s = Some src \<and> canvasRef s = Some True
          \<and> snd (analyzeMotion ai img1 img2) = Inl (JsError cause) \<longrightarrow>
            error (handleAnalyzeMotion te img1 img2 ai s) = Some (''Analysis failed: '' @ cause)
            \<and> analysisResult (handleAnalyzeMotion te img1 img2 ai s) = JNull)
     \<and> (videoRef s = Some src \<and> canvasRef s = Some True
          \<and> ai (motionRequest img1 img2) = Inr (Parses JNull) \<longrightarrow>
            error (handleAnalyzeMotion te img1 img2 ai s)
              = Some (''Analysis failed: '' @ te ''movementDescription'')
            \<and> analysisResult (handleAnalyzeMotion te img1 img2 ai s) = JNull)"
proof -
  have flag: "isAnalyzing (handleAnalyzeMotion te img1 img2 ai s) = False"
    using assms
    by (simp add: handleAnalyzeMotion_def Let_def split: prod.splits option.splits thrown.splits)
  note any = handleAnalyzeMotion_error_or_cleared [OF assms, of te img1 img2 ai]
  note causes = handleAnalyzeMotion_causes [OF assms, of te img1 img2 ai src cause]
  have null: "error (handleAnalyzeMotion te img1 img2 ai s)
                = Some (''Analysis failed: '' @ te ''movementDescription'')
              \<and> analysisResult (handleAnalyzeMotion te img1 img2 ai s) = JNull"
    if "videoRef s = Some src \<and> canvasRef s = Some True
          \<and> ai (motionRequest img1 img2) = Inr (Parses JNull)"
    using assms that by (intro handleAnalyzeMotion_null_body [where src = src]) simp_all
  from flag any causes null show ?thesis by auto
qed

theorem handleAnalyzeMotion_releases_flag_and_reports_witness:
  "isCameraOn camera_on
   \<and> isAnalyzing (handleAnalyzeMotion v8_text ''A'' ''B'' (backend_throws (JsError ''network down'')) camera_on) = False
   \<and> error (handleAnalyzeMotion v8_text ''A'' ''B'' (backend_throws (JsError ''network down'')) camera_on)
       = Some ''Analysis failed: Failed to analyze motion with Gemini API: network down''
   \<and> analysisResult (handleAnalyzeMotion v8_text ''A'' ''B'' (backend_throws (JsError ''network down'')) camera_on) = JNull"
proof -
  have on: "isCameraOn camera_on" and src: "videoRef camera_on = Some (Some 1)"
    and canvas: "canvasRef camera_on = Some True"
    by (simp_all add: run_defs)
  have thrown: "snd (analyzeMotion (backend_throws (JsError ''network down'')) ''A'' ''B'')
      = Inl (JsError ''Failed to analyze motion with Gemini API: network down'')"
    by (simp add: analyzeMotion_def backend_throws_def)
  from handleAnalyzeMotion_releases_flag_and_reports
         [OF on, of v8_text "''A''" "''B''" "backend_throws (JsError ''network down'')" "Some 1"
            "''Failed to analyze motion with Gemini API: network down''"]
       on src canvas thrown
  show ?thesis by simp
qed

lemma handleAnalyzeMotion_success:
  assumes "isCameraOn s" "videoRef s = Some src" "canvasRef s = Some True"
    and "ai (motionRequest img1 img2) = Inr (Parses result)"
    and "get_prop te result ''movementDescription'' = Inr d"
  shows "handleAnalyzeMotion te img1 img2 ai s =
     s\<lparr>error := None, analysisResult := result, detections := JArr [], transientMessage := d,
       isAnalyzing := False,
       effects := effects s @ [Captured img1, Waited 500, Captured img2, GenerateContent (motionRequest img1 img2)],
       lastHandle := Suc (Suc (lastHandle s)),
       timers := timers (clear_if_set (transientMessageTimeoutRef s) s)
                 @ [(Suc (Suc (lastHandle s)), Timeout ClearTransientMessage 5000)],
       transientMessageTimeoutRef := Some (Suc (Suc (lastHandle s)))\<rparr>"
  using assms
  by (simp add: handleAnalyzeMotion_def analyzeMotion_try_def captureFrame_def clearState_def delay_def
      analyzeMotion_ok window_setTimeout_def Let_def clear_if_set_def clearTimer_def split: option.splits)

lemma filter_tracked_empty:
  assumes "\<forall>k\<in>set (map fst (filter P xs)). k \<noteq> 0 \<and> r = Some k"
  shows "filter P (filter (\<lambda>ht. r = None \<or> r = Some 0 \<or> r \<noteq> Some (fst ht)) xs) = []"
  using assms by (induction xs) auto

lemma pending_after_clear:
  assumes "\<forall>k\<in>set (pending cb s). k \<noteq> 0 \<and> r = Some k"
  shows "filter (\<lambda>ht. callback_of (snd ht) = cb) (timers (clear_if_set r s)) = []"
  using assms unfolding pending_def timers_clear_if_set by (rule filter_tracked_empty)

lemma map_of_fresh_last:
  assumes "h \<notin> fst ` set xs"
  shows "map_of (xs @ [(h, v)]) h = Some v"
  using assms by (induction xs) auto

lemma filter_fresh_last:
  assumes "h \<notin> fst ` set xs"
  shows "filter (\<lambda>ht. fst ht \<noteq> h) (xs @ [(h, v)]) = xs"
  using assms by (induction xs) auto

text \<open>The banner timer stays tracked in every run.\<close>

lemma tracked_cong:
  "timers t = timers s \<Longrightarrow> lastHandle t = lastHandle s \<Longrightarrow>
   transientMessageTimeoutRef t = transientMessageTimeoutRef s \<Longrightarrow>
   banner_timer_tracked t = banner_timer_tracked s"
  by (simp add: banner_timer_tracked_def pending_def)

lemma tracked_fewer_timers:
  assumes "banner_timer_tracked s" and "set (timers t) \<subseteq> set (timers s)"
    and "lastHandle s \<le> lastHandle t"
    and "transientMessageTimeoutRef t = transientMessageTimeoutRef s"
  shows "banner_timer_tracked t"
  using assms unfolding banner_timer_tracked_def pending_def by fastforce

lemma clear_if_set_keeps:
  "lastHandle (clear_if_set r s) = lastHandle s"
  "transientMessageTimeoutRef (clear_if_set r s) = transientMessageTimeoutRef s"
  "set (timers (clear_if_set r s)) \<subseteq> set (timers s)"
  by (auto simp: clear_if_set_def clearTimer_def split: option.splits)

lemma runLiveDetection_keeps:
  "timers (runLiveDetection te cameraOn hidden img ai s) = timers s"
  "lastHandle (runLiveDetection te cameraOn hidden img ai s) = lastHandle s"
  "transientMessageTimeoutRef (runLiveDetection te cameraOn hidden img ai s) = transientMessageTimeoutRef s"
  by (simp_all add: runLiveDetection_def captureFrame_def
      split: option.splits prod.splits sum.splits thrown.splits)

lemma analyzeMotion_try_throw_fields:
  "analyzeMotion_try te img1 img2 ai s = (t, Some e) \<Longrightarrow>
   timers t = timers s
   \<and> (lastHandle t = lastHandle s \<or> lastHandle t = Suc (lastHandle s))
   \<and> transientMessageTimeoutRef t = transientMessageTimeoutRef s"
  by (auto simp: analyzeMotion_try_def captureFrame_def delay_def Let_def window_setTimeout_def
      split: option.splits prod.splits sum.splits if_splits)

lemma analyzeMotion_try_done_fields:
  "analyzeMotion_try te img1 img2 ai s = (t, None) \<Longrightarrow>
   timers t = timers (clear_if_set (transientMessageTimeoutRef s) s)
              @ [(Suc (Suc (lastHandle s)), Timeout ClearTransientMessage 5000)]
   \<and> lastHandle t = Suc (Suc (lastHandle s))
   \<and> transientMessageTimeoutRef t = Some (Suc (Suc (lastHandle s)))"
  by (auto simp: analyzeMotion_try_def captureFrame_def delay_def Let_def window_setTimeout_def
        clear_if_set_def clearTimer_def
      split: option.splits prod.splits sum.splits if_splits)

lemma tracked_try:
  assumes "banner_timer_tracked s" and "analyzeMotion_try te img1 img2 ai s = (t, e)"
  shows "banner_timer_tracked t"
proof (cases e)
  case (Some x)
  with assms(2) have "timers t = timers s
      \<and> (lastHandle t = lastHandle s \<or> lastHandle t = Suc (lastHandle s))
      \<and> transientMessageTimeoutRef t = transientMessageTimeoutRef s"
    by (simp add: analyzeMotion_try_throw_fields)
  with assms(1) show ?thesis
    by (intro tracked_fewer_timers [of s t]) auto
next
  case None
  let ?old = "timers (clear_if_set (transientMessageTimeoutRef s) s)"
  let ?h = "Suc (Suc (lastHandle s))"
  from None assms(2) have t: "timers t = ?old @ [(?h, Timeout ClearTransientMessage 5000)]"
    "lastHandle t = ?h" "transientMessageTimeoutRef t = Some ?h"
    by (simp_all add: analyzeMotion_try_done_fields)
  have positive: "\<forall>k\<in>set (pending ClearTransientMessage s).
                    k \<noteq> 0 \<and> transientMessageTimeoutRef s = Some k"
    using assms(1) unfolding banner_timer_tracked_def pending_def by fastforce
  have none: "filter (\<lambda>ht. callback_of (snd ht) = ClearTransientMessage) ?old = []"
    using positive by (rule pending_after_clear)
  have bound: "\<forall>ht\<in>set ?old. 0 < fst ht \<and> fst ht \<le> lastHandle s"
    using assms(1) clear_if_set_keeps(3) [of "transientMessageTimeoutRef s" s]
    unfolding banner_timer_tracked_def by blast
  have "\<forall>ht\<in>set (timers t). 0 < fst ht \<and> fst ht \<le> lastHandle t"
    using bound unfolding t by auto
  moreover have "pending ClearTransientMessage t = [?h]"
    unfolding pending_def t using none by simp
  ultimately show ?thesis
    unfolding banner_timer_tracked_def by (simp add: t)
qed

lemma tracked_handleAnalyzeMotion:
  assumes "banner_timer_tracked s"
  shows "banner_timer_tracked (handleAnalyzeMotion te img1 img2 ai s)"
proof (cases "isCameraOn s")
  case False
  with assms show ?thesis by (simp add: handleAnalyzeMotion_def)
next
  case True
  let ?s1 = "(clearState s)\<lparr>isAnalyzing := True\<rparr>"
  obtain t e where tried: "analyzeMotion_try te img1 img2 ai ?s1 = (t, e)"
    by (cases "analyzeMotion_try te img1 img2 ai ?s1")
  have "banner_timer_tracked ?s1 = banner_timer_tracked s"
    by (rule tracked_cong) (simp_all add: clearState_def)
  with assms have "banner_timer_tracked ?s1" by simp
  then have "banner_timer_tracked t" using tried by (rule tracked_try)
  moreover have "banner_timer_tracked (handleAnalyzeMotion te img1 img2 ai s) = banner_timer_tracked t"
    using True tried
    by (intro tracked_cong)
       (simp_all add: handleAnalyzeMotion_def Let_def split: option.splits thrown.splits)
  ultimately show ?thesis by simp
qed

lemma toggleLiveDetection_on_fields:
  assumes "\<not> isDetecting s"
  shows "timers (toggleLiveDetection te hidden img ai s)
           = timers s @ [(Suc (lastHandle s), Interval (RunLiveDetection (isCameraOn s)) 3000)]"
    and "lastHandle (toggleLiveDetection te hidden img ai s) = Suc (lastHandle s)"
    and "transientMessageTimeoutRef (toggleLiveDetection te hidden img ai s)
           = transientMessageTimeoutRef s"
  using assms
  by (simp_all add: toggleLiveDetection_def runLiveDetection_keeps window_setInterval_def
        clearState_def Let_def)

lemma toggleLiveDetection_off_fields:
  assumes "isDetecting s"
  shows "timers (toggleLiveDetection te hidden img ai s) = timers (clear_if_set (detectionIntervalRef s) s)"
    and "lastHandle (toggleLiveDetection te hidden img ai s) = lastHandle s"
    and "transientMessageTimeoutRef (toggleLiveDetection te hidden img ai s)
           = transientMessageTimeoutRef s"
  using assms by (simp_all add: toggleLiveDetection_def clear_if_set_keeps)

lemma tracked_toggle:
  assumes "banner_timer_tracked s"
  shows "banner_timer_tracked (toggleLiveDetection te hidden img ai s)"
proof (cases "isDetecting s")
  case True
  show ?thesis
    using assms
  proof (rule tracked_fewer_timers)
    show "set (timers (toggleLiveDetection te hidden img ai s)) \<subseteq> set (timers s)"
      by (simp add: toggleLiveDetection_off_fields [OF True] clear_if_set_keeps)
  qed (simp_all add: toggleLiveDetection_off_fields [OF True])
next
  case False
  note f = toggleLiveDetection_on_fields [OF False, of te hidden img ai]
  have "\<forall>ht\<in>set (timers (toggleLiveDetection te hidden img ai s)).
          0 < fst ht \<and> fst ht \<le> lastHandle (toggleLiveDetection te hidden img ai s)"
    using assms unfolding f banner_timer_tracked_def by fastforce
  moreover have "pending ClearTransientMessage (toggleLiveDetection te hidden img ai s)
                   = pending ClearTransientMessage s"
    unfolding pending_def f by simp
  ultimately show ?thesis
    using assms unfolding banner_timer_tracked_def by (simp add: f)
qed

lemma fire_fields:
  "set (timers (fire te h hidden img ai s)) \<subseteq> set (timers s)"
  "lastHandle (fire te h hidden img ai s) = lastHandle s"
  "transientMessageTimeoutRef (fire te h hidden img ai s) = transientMessageTimeoutRef s"
  by (auto simp: fire_def run_callback_def runLiveDetection_keeps clearTimer_def
      split: option.splits timer.splits callback.splits)

lemma tracked_fire:
  assumes "banner_timer_tracked s"
  shows "banner_timer_tracked (fire te h hidden img ai s)"
  using assms by (rule tracked_fewer_timers) (simp_all add: fire_fields)

lemma stopCamera_fields:
  "lastHandle (stopCamera s) = lastHandle s"
  "transientMessageTimeoutRef (stopCamera s) = transientMessageTimeoutRef s"
  by (simp_all add: stopCamera_def clearState_def clearTimer_def Let_def split: option.splits)

lemma tracked_step:
  assumes "banner_timer_tracked s"
  shows "banner_timer_tracked (step te s e)"
proof (cases e)
  case (Start m)
  have "banner_timer_tracked (startCamera m s) = banner_timer_tracked s"
    by (rule tracked_cong)
       (simp_all add: startCamera_def startCamera_settled_def clearState_def Let_def
          split: media.splits option.splits)
  with assms Start show ?thesis by simp
next
  case StartCalled
  have "banner_timer_tracked (clearState s) = banner_timer_tracked s"
    by (rule tracked_cong) (simp_all add: clearState_def)
  with assms StartCalled show ?thesis by simp
next
  case (StartSettled m)
  have "banner_timer_tracked (startCamera_settled m s) = banner_timer_tracked s"
    by (rule tracked_cong)
       (simp_all add: startCamera_settled_def Let_def split: media.splits option.splits)
  with assms StartSettled show ?thesis by simp
next
  case Stop
  have "banner_timer_tracked (stopCamera s)"
    using assms
    by (rule tracked_fewer_timers)
       (simp_all add: timers_stopCamera clear_if_set_keeps stopCamera_fields)
  with Stop show ?thesis by simp
next
  case (Select m)
  have "banner_timer_tracked (selectMode m s) = banner_timer_tracked s"
    by (rule tracked_cong) (simp_all add: selectMode_def clearState_def)
  with assms Select show ?thesis by simp
next
  case (Analyze img1 img2 ai)
  with assms show ?thesis by (simp add: tracked_handleAnalyzeMotion)
next
  case (Toggle hidden img ai)
  with assms show ?thesis by (simp add: tracked_toggle)
next
  case (Due h hidden img ai)
  with assms show ?thesis by (simp add: tracked_fire)
qed

lemma tracked_foldl:
  "banner_timer_tracked s \<Longrightarrow> banner_timer_tracked (foldl (step te) s evs)"
  by (induction evs arbitrary: s) (simp_all add: tracked_step)

lemma banner_timer_tracked_after: "banner_timer_tracked (after te evs)"
  unfolding after_def by (rule tracked_foldl) (simp add: banner_timer_tracked_def initial_def pending_def)

lemma JSON_parse_value: "JSON_parse body = Inr v \<Longrightarrow> body = Parses v"
  by (cases body) simp_all

lemma analyzeMotion_trace:
  "fst (analyzeMotion ai f1 f2) =
     GenerateContent (motionRequest f1 f2)
     # (case ai (motionRequest f1 f2) of
          Inr (Parses v) \<Rightarrow> []
        | _ \<Rightarrow> [ConsoleError ''Error analyzing motion:''])"
  by (simp add: analyzeMotion_def Let_def split: sum.splits thrown.splits response_text.splits)

lemma handleAnalyzeMotion_trace:
  assumes "isCameraOn s" and "videoRef s = Some src" and "canvasRef s = Some True"
  shows "effects (handleAnalyzeMotion te img1 img2 ai s)
           = effects s @ [Captured img1, Waited 500, Captured img2] @ fst (analyzeMotion ai img1 img2)"
  using assms
  by (simp add: handleAnalyzeMotion_def analyzeMotion_try_def captureFrame_def clearState_def
        delay_def window_setTimeout_def clear_if_set_def clearTimer_def Let_def
      split: prod.splits sum.splits option.splits thrown.splits)

lemma handleAnalyzeMotion_backend_failure:
  assumes "isCameraOn s" and "videoRef s = Some src" and "canvasRef s = Some True"
    and "\<forall>v. ai (motionRequest img1 img2) \<noteq> Inr (Parses v)"
  shows "analysisResult (handleAnalyzeMotion te img1 img2 ai s) = JNull
     \<and> transientMessage (handleAnalyzeMotion te img1 img2 ai s) = Some JNull
     \<and> timers (handleAnalyzeMotion te img1 img2 ai s) = timers s
     \<and> transientMessageTimeoutRef (handleAnalyzeMotion te img1 img2 ai s) = transientMessageTimeoutRef s
     \<and> (\<exists>cause. error (handleAnalyzeMotion te img1 img2 ai s) = Some (''Analysis failed: '' @ cause))"
proof -
  have "\<exists>fx m. analyzeMotion ai img1 img2 = (fx, Inl (JsError m))"
    using assms(4)
    by (auto simp: analyzeMotion_def Let_def split: sum.splits thrown.splits dest: JSON_parse_value)
  then obtain fx m where "analyzeMotion ai img1 img2 = (fx, Inl (JsError m))"
    by blast
  with assms(1-3) show ?thesis
    by (simp add: handleAnalyzeMotion_def analyzeMotion_try_def captureFrame_def clearState_def
          delay_def Let_def)
qed

lemma handleAnalyzeMotion_no_capture:
  assumes "isCameraOn s" and "videoRef s = None \<or> canvasRef s \<noteq> Some True"
  shows "effects (handleAnalyzeMotion te img1 img2 ai s) = effects s"
  using assms
  by (auto simp: handleAnalyzeMotion_def analyzeMotion_try_def captureFrame_def clearState_def Let_def
      split: option.splits bool.splits)

text \<open>
  C6. With the camera on and the capture surfaces available, \<open>handleAnalyzeMotion\<close>
  does exactly this to the outside, in this order: captures frame A, waits 500 ms,
  captures frame B, sends one request, whose parts are the motion prompt and the two
  frames as JPEG images, with the schema of the motion result. This is the trace
  whatever the backend answers; when the call fails the failure is logged after it,
  nothing is stored or shown, no timer is armed, and the error is set. When the backend
  answers with a JSON value \<open>result\<close> whose \<open>movementDescription\<close> can be read, the
  handler stores \<open>result\<close>, shows its \<open>movementDescription\<close> as the banner and arms a
  5000 ms one-shot timer that sets the banner to null; the timer the ref held before is
  cleared first, so that if every pending banner timer was the one held by the ref,
  exactly one is pending afterwards; this is so in every state that a run of the
  component reaches. Without a capture surface nothing is done to the outside, and with
  the camera off the call changes nothing.
\<close>

theorem handleAnalyzeMotion_steps:
  assumes "isCameraOn s" and "videoRef s = Some src" and "canvasRef s = Some True"
  shows "parts (motionRequest img1 img2)
           = [TextPart motionPrompt, InlineData ''image/jpeg'' img1, InlineData ''image/jpeg'' img2]
     \<and> model (motionRequest img1 img2) = ''gemini-2.5-flash''
     \<and> responseSchema (motionRequest img1 img2) = motionAnalysisSchema
     \<and> effects (handleAnalyzeMotion te img1 img2 ai s)
           = effects s @ [Captured img1, Waited 500, Captured img2, GenerateContent (motionRequest img1 img2)]
             @ (case ai (motionRequest img1 img2) of
                  Inr (Parses v) \<Rightarrow> []
                | _ \<Rightarrow> [ConsoleError ''Error analyzing motion:''])
     \<and> ((\<forall>v. ai (motionRequest img1 img2) \<noteq> Inr (Parses v)) \<longrightarrow>
          analysisResult (handleAnalyzeMotion te img1 img2 ai s) = JNull
          \<and> transientMessage (handleAnalyzeMotion te img1 img2 ai s) = Some JNull
          \<and> timers (handleAnalyzeMotion te img1 img2 ai s) = timers s
          \<and> transientMessageTimeoutRef (handleAnalyzeMotion te img1 img2 ai s)
              = transientMessageTimeoutRef s
          \<and> (\<exists>cause. error (handleAnalyzeMotion te img1 img2 ai s) = Some (''Analysis failed: '' @ cause)))
     \<and> (ai (motionRequest img1 img2) = Inr (Parses result)
          \<and> get_prop te result ''movementDescription'' = Inr d \<longrightarrow>
          analysisResult (handleAnalyzeMotion te img1 img2 ai s) = result
          \<and> transientMessage (handleAnalyzeMotion te img1 img2 ai s) = d
          \<and> transientMessageTimeoutRef (handleAnalyzeMotion te img1 img2 ai s) = Some (Suc (Suc (lastHandle s)))
          \<and> timers (handleAnalyzeMotion te img1 img2 ai s)
                = timers (clear_if_set (transientMessageTimeoutRef s) s)
                  @ [(Suc (Suc (lastHandle s)), Timeout ClearTransientMessage 5000)]
          \<and> ((\<forall>k\<in>set (pending ClearTransientMessage s). k \<noteq> 0 \<and> transientMessageTimeoutRef s = Some k) \<longrightarrow>
               pending ClearTransientMessage (handleAnalyzeMotion te img1 img2 ai s) = [Suc (Suc (lastHandle s))])
          \<and> ((\<forall>k\<in>fst ` set (timers s). k \<le> lastHandle s) \<longrightarrow>
               fire te (Suc (Suc (lastHandle s))) hidden img ai' (handleAnalyzeMotion te img1 img2 ai s)
                 = (handleAnalyzeMotion te img1 img2 ai s)
                     \<lparr>transientMessage := Some JNull,
                      timers := timers (clear_if_set (transientMessageTimeoutRef s) s)\<rparr>)
          \<and> (s = after te evs \<longrightarrow>
               pending ClearTransientMessage (handleAnalyzeMotion te img1 img2 ai s) = [Suc (Suc (lastHandle s))]))
     \<and> (isCameraOn u \<and> (videoRef u = None \<or> canvasRef u \<noteq> Some True) \<longrightarrow>
          effects (handleAnalyzeMotion te img1 img2 ai u) = effects u)
     \<and> (\<not> isCameraOn t \<longrightarrow> handleAnalyzeMotion te img1 img2 ai t = t)"
proof -
  let ?h = "Suc (Suc (lastHandle s))"
  let ?old = "timers (clear_if_set (transientMessageTimeoutRef s) s)"
  let ?s' = "handleAnalyzeMotion te img1 img2 ai s"
  have request: "parts (motionRequest img1 img2)
           = [TextPart motionPrompt, InlineData ''image/jpeg'' img1, InlineData ''image/jpeg'' img2]"
    "model (motionRequest img1 img2) = ''gemini-2.5-flash''"
    "responseSchema (motionRequest img1 img2) = motionAnalysisSchema"
    by (simp_all add: motionRequest_def)
  have trace: "effects ?s'
           = effects s @ [Captured img1, Waited 500, Captured img2, GenerateContent (motionRequest img1 img2)]
             @ (case ai (motionRequest img1 img2) of
                  Inr (Parses v) \<Rightarrow> []
                | _ \<Rightarrow> [ConsoleError ''Error analyzing motion:''])"
    using handleAnalyzeMotion_trace [OF assms, of te img1 img2 ai]
    by (simp add: analyzeMotion_trace)
  have failure: "analysisResult ?s' = JNull
          \<and> transientMessage ?s' = Some JNull
          \<and> timers ?s' = timers s
          \<and> transientMessageTimeoutRef ?s' = transientMessageTimeoutRef s
          \<and> (\<exists>cause. error ?s' = Some (''Analysis failed: '' @ cause))"
    if "\<forall>v. ai (motionRequest img1 img2) \<noteq> Inr (Parses v)"
    using assms that by (rule handleAnalyzeMotion_backend_failure)
  have success: "analysisResult ?s' = result
          \<and> transientMessage ?s' = d
          \<and> transientMessageTimeoutRef ?s' = Some ?h
          \<and> timers ?s' = ?old @ [(?h, Timeout ClearTransientMessage 5000)]
          \<and> ((\<forall>k\<in>set (pending ClearTransientMessage s). k \<noteq> 0 \<and> transientMessageTimeoutRef s = Some k) \<longrightarrow>
               pending ClearTransientMessage ?s' = [?h])
          \<and> ((\<forall>k\<in>fst ` set (timers s). k \<le> lastHandle s) \<longrightarrow>
               fire te ?h hidden img ai' ?s' = ?s'\<lparr>transientMessage := Some JNull, timers := ?old\<rparr>)
          \<and> (s = after te evs \<longrightarrow> pending ClearTransientMessage ?s' = [?h])"
    if ok: "ai (motionRequest img1 img2) = Inr (Parses result)"
      and d: "get_prop te result ''movementDescription'' = Inr d"
  proof -
    have run: "?s' =
       s\<lparr>error := None, analysisResult := result, detections := JArr [], transientMessage := d,
         isAnalyzing := False,
         effects := effects s @ [Captured img1, Waited 500, Captured img2, GenerateContent (motionRequest img1 img2)],
         lastHandle := ?h,
         timers := ?old @ [(?h, Timeout ClearTransientMessage 5000)],
         transientMessageTimeoutRef := Some ?h\<rparr>"
      using assms ok d by (rule handleAnalyzeMotion_success)
    have stack: "pending ClearTransientMessage ?s' = [?h]"
      if "\<forall>k\<in>set (pending ClearTransientMessage s). k \<noteq> 0 \<and> transientMessageTimeoutRef s = Some k"
      using pending_after_clear [OF that] by (simp add: run pending_def)
    have clear: "fire te ?h hidden img ai' ?s' = ?s'\<lparr>transientMessage := Some JNull, timers := ?old\<rparr>"
      if "\<forall>k\<in>fst ` set (timers s). k \<le> lastHandle s"
    proof -
      have fresh: "?h \<notin> fst ` set ?old"
        using that by (fastforce simp: timers_clear_if_set)
      have armed: "timers ?s' = ?old @ [(?h, Timeout ClearTransientMessage 5000)]"
        by (simp add: run)
      have due: "map_of (timers ?s') ?h = Some (Timeout ClearTransientMessage 5000)"
        unfolding armed using fresh by (rule map_of_fresh_last)
      have rest: "filter (\<lambda>ht. fst ht \<noteq> ?h) (timers ?s') = ?old"
        unfolding armed using fresh by (rule filter_fresh_last)
      show ?thesis
        by (simp add: fire_def due run_callback_def clearTimer_def rest)
    qed
    have reached: "pending ClearTransientMessage ?s' = [?h]" if "s = after te evs"
    proof (rule stack)
      have "banner_timer_tracked s"
        unfolding that by (rule banner_timer_tracked_after)
      then show "\<forall>k\<in>set (pending ClearTransientMessage s).
                   k \<noteq> 0 \<and> transientMessageTimeoutRef s = Some k"
        unfolding banner_timer_tracked_def pending_def by fastforce
    qed
    from stack clear reached show ?thesis by (simp add: run)
  qed
  have unavailable: "effects (handleAnalyzeMotion te img1 img2 ai u) = effects u"
    if "isCameraOn u \<and> (videoRef u = None \<or> canvasRef u \<noteq> Some True)"
    using that by (intro handleAnalyzeMotion_no_capture) auto
  have noop: "handleAnalyzeMotion te img1 img2 ai t = t" if "\<not> isCameraOn t"
    using that by (simp add: handleAnalyzeMotion_def)
  show ?thesis
    using request trace failure success unavailable noop by blast
qed

theorem handleAnalyzeMotion_steps_witness:
  "isCameraOn after_analysis
   \<and> timers after_analysis = [(2, Timeout ClearTransientMessage 5000)]
   \<and> parts (motionRequest ''C'' ''D'')
       = [TextPart motionPrompt, InlineData ''image/jpeg'' ''C'', InlineData ''image/jpeg'' ''D'']
   \<and> effects (handleAnalyzeMotion v8_text ''C'' ''D'' (backend_replies (Parses red_ball)) after_analysis)
       = effects after_analysis @ [Captured ''C'', Waited 500, Captured ''D'', GenerateContent (motionRequest ''C'' ''D'')]
   \<and> analysisResult (handleAnalyzeMotion v8_text ''C'' ''D'' (backend_replies (Parses red_ball)) after_analysis) = red_ball
   \<and> transientMessage (handleAnalyzeMotion v8_text ''C'' ''D'' (backend_replies (Parses red_ball)) after_analysis)
       = Some (JStr ''rolling right'')
   \<and> timers (handleAnalyzeMotion v8_text ''C'' ''D'' (backend_replies (Parses red_ball)) after_analysis)
       = [(4, Timeout ClearTransientMessage 5000)]
   \<and> pending ClearTransientMessage (handleAnalyzeMotion v8_text ''C'' ''D'' (backend_replies (Parses red_ball)) after_analysis) = [4]
   \<and> transientMessage (fire v8_text 4 False ''E'' (backend_throws NonError)
        (handleAnalyzeMotion v8_text ''C'' ''D'' (backend_replies (Parses red_ball)) after_analysis)) = Some JNull
   \<and> effects (handleAnalyzeMotion v8_text ''C'' ''D'' (backend_throws (JsError ''network down'')) after_analysis)
       = effects after_analysis @ [Captured ''C'', Waited 500, Captured ''D'', GenerateContent (motionRequest ''C'' ''D''),
                                   ConsoleError ''Error analyzing motion:'']
   \<and> timers (handleAnalyzeMotion v8_text ''C'' ''D'' (backend_throws (JsError ''network down'')) after_analysis)
       = [(2, Timeout ClearTransientMessage 5000)]
   \<and> handleAnalyzeMotion v8_text ''C'' ''D'' (backend_replies (Parses red_ball)) initial = initial"
proof -
  have on: "isCameraOn after_analysis"
    and src: "videoRef after_analysis = Some (Some 1)"
    and canvas: "canvasRef after_analysis = Some True"
    and last: "lastHandle after_analysis = 2"
    and ref: "transientMessageTimeoutRef after_analysis = Some 2"
    and armed: "timers after_analysis = [(2, Timeout ClearTransientMessage 5000)]"
    by (simp_all add: run_defs)
  have reply: "backend_replies (Parses red_ball) (motionRequest ''C'' ''D'') = Inr (Parses red_ball)"
    and throw: "backend_throws (JsError ''network down'') (motionRequest ''C'' ''D'') = Inl (JsError ''network down'')"
    by (simp_all add: backend_replies_def backend_throws_def)
  have descr: "get_prop v8_text red_ball ''movementDescription'' = Inr (Some (JStr ''rolling right''))"
    by (simp add: red_ball_def)
  have off: "\<not> isCameraOn initial"
    by (simp add: initial_def)
  from handleAnalyzeMotion_steps
         [OF on src canvas,
          where te = v8_text and ai = "backend_replies (Parses red_ball)"
            and ?img1.0 = "''C''" and ?img2.0 = "''D''" and result = red_ball
            and d = "Some (JStr ''rolling right'')" and hidden = False and img = "''E''"
            and ai' = "backend_throws NonError" and t = initial]
       handleAnalyzeMotion_steps
         [OF on src canvas,
          where te = v8_text and ai = "backend_throws (JsError ''network down'')"
            and ?img1.0 = "''C''" and ?img2.0 = "''D''"]
       reply throw descr last ref armed off on
  show ?thesis
    by (simp add: pending_def timers_clear_if_set)
qed

subsection \<open>Live detection\<close>

text \<open>
  C7. A detection cycle whose backend call fails changes nothing in the state but the
  trace of effects: the detections, the error, the armed timers, the ref holding the
  interval and \<open>isDetecting\<close> are as before; the failure is written to the console. A
  cycle that passes the guard, captures a frame and gets an answer stores the answer as
  the detections and sets the error to null.
\<close>

theorem runLiveDetection_failure_is_silent:
  "(snd (detectObjectsInFrame te ai img) = Inl e \<longrightarrow>
      runLiveDetection te cameraOn hidden img ai s = s\<lparr>effects := effects (runLiveDetection te cameraOn hidden img ai s)\<rparr>
      \<and> detections (runLiveDetection te cameraOn hidden img ai s) = detections s
      \<and> error (runLiveDetection te cameraOn hidden img ai s) = error s
      \<and> timers (runLiveDetection te cameraOn hidden img ai s) = timers s
      \<and> detectionIntervalRef (runLiveDetection te cameraOn hidden img ai s) = detectionIntervalRef s
      \<and> isDetecting (runLiveDetection te cameraOn hidden img ai s) = isDetecting s)
   \<and> (cameraOn \<and> \<not> hidden \<and> videoRef s = Some src \<and> canvasRef s = Some True
        \<and> snd (detectObjectsInFrame te ai img) = Inl (JsError cause) \<longrightarrow>
      effects (runLiveDetection te cameraOn hidden img ai s)
        = effects s @ [Captured img] @ fst (detectObjectsInFrame te ai img)
          @ [ConsoleError (''Detection failed: '' @ cause)])
   \<and> (cameraOn \<and> \<not> hidden \<and> videoRef s = Some src \<and> canvasRef s = Some True
        \<and> snd (detectObjectsInFrame te ai img) = Inr results \<longrightarrow>
      runLiveDetection te cameraOn hidden img ai s
        = s\<lparr>effects := effects s @ [Captured img] @ fst (detectObjectsInFrame te ai img),
            detections := results, error := None\<rparr>)"
  by (auto simp: runLiveDetection_def captureFrame_def
      split: option.splits prod.splits sum.splits thrown.splits)

theorem runLiveDetection_failure_is_silent_witness:
  "detections detecting = JArr [cup, book]
   \<and> snd (detectObjectsInFrame v8_text (backend_throws (JsError ''Failed to fetch'')) ''F2'')
       = Inl (JsError ''Failed to detect objects with Gemini API: Failed to fetch'')
   \<and> detections (runLiveDetection v8_text True False ''F2'' (backend_throws (JsError ''Failed to fetch'')) detecting)
       = JArr [cup, book]
   \<and> error (runLiveDetection v8_text True False ''F2'' (backend_throws (JsError ''Failed to fetch'')) detecting) = None
   \<and> timers (runLiveDetection v8_text True False ''F2'' (backend_throws (JsError ''Failed to fetch'')) detecting)
       = [(1, Interval (RunLiveDetection True) 3000)]
   \<and> detections (runLiveDetection v8_text True False ''F3'' (backend_replies (Parses (JObj [(''detections'', JArr [book])]))) detecting)
       = JArr [book]"
proof -
  have st: "isCameraOn detecting" "videoRef detecting = Some (Some 1)" "canvasRef detecting = Some True"
    "detections detecting = JArr [cup, book]" "error detecting = None"
    "timers detecting = [(1, Interval (RunLiveDetection True) 3000)]"
    by (simp_all add: run_defs)
  have fails: "snd (detectObjectsInFrame v8_text (backend_throws (JsError ''Failed to fetch'')) ''F2'')
       = Inl (JsError ''Failed to detect objects with Gemini API: Failed to fetch'')"
    by (simp add: detectObjectsInFrame_def backend_throws_def)
  have answers: "snd (detectObjectsInFrame v8_text (backend_replies (Parses (JObj [(''detections'', JArr [book])]))) ''F3'')
       = Inr (JArr [book])"
    by (simp add: detectObjectsInFrame_def backend_replies_def or_empty_array_def)
  from runLiveDetection_failure_is_silent
         [where te = v8_text and ai = "backend_throws (JsError ''Failed to fetch'')" and img = "''F2''"
            and e = "JsError ''Failed to detect objects with Gemini API: Failed to fetch''"
            and cameraOn = True and hidden = False and s = detecting]
       runLiveDetection_failure_is_silent
         [where te = v8_text and ai = "backend_replies (Parses (JObj [(''detections'', JArr [book])]))"
            and img = "''F3''" and cameraOn = True and hidden = False and s = detecting
            and src = "Some 1" and results = "JArr [book]"]
       st fails answers
  show ?thesis by simp
qed

text \<open>
  The guard of a cycle: with the camera flag it reads off, or the page hidden, the cycle
  returns the state it was given. A tick on a hidden page is skipped, and so is the
  immediate cycle of \<open>toggleLiveDetection\<close> when the camera is off or the page hidden.
\<close>

lemma runLiveDetection_guard:
  "\<not> cameraOn \<or> hidden \<Longrightarrow> runLiveDetection te cameraOn hidden img ai s = s"
  by (auto simp: runLiveDetection_def)

lemma tick_skipped_when_hidden:
  "map_of (timers s) h = Some (Interval (RunLiveDetection cameraOn) ms) \<Longrightarrow>
   fire te h True img ai s = s"
  by (simp add: fire_def run_callback_def runLiveDetection_guard)

lemma immediate_cycle_skipped:
  "\<not> isDetecting s \<Longrightarrow> \<not> isCameraOn s \<or> hidden \<Longrightarrow>
   effects (toggleLiveDetection te hidden img ai s) = effects s"
  by (auto simp: toggleLiveDetection_def runLiveDetection_guard window_setInterval_def
        clearState_def Let_def)

text \<open>
  C8. A tick of the repeating timer while the camera flag is off: Start is pressed
  twice while the first request is pending (the button is rendered both times), the
  first request is granted, live detection is switched on, and the second request is
  rejected, which sets \<open>isCameraOn\<close> to false and leaves the timer armed. The timer
  calls the \<open>runLiveDetection\<close> of the render in which detection was switched on, whose
  \<open>isCameraOn\<close> is true: the tick is not skipped. It captures a frame, sends it to the
  backend, replaces the detections and sets the error to null. On a hidden page the
  same tick is skipped.
\<close>

theorem tick_runs_with_camera_flag_off:
  "StartButton \<in> set (controls initial)
   \<and> StartButton \<in> set (controls (after v8_text [StartCalled]))
   \<and> ModeButton Live \<in> set (controls (after v8_text [StartCalled, StartCalled, StartSettled Granted]))
   \<and> ToggleButton \<in> set (controls (after v8_text [StartCalled, StartCalled, StartSettled Granted, Select Live]))
   \<and> isCameraOn camera_flag_cleared = False
   \<and> isDetecting camera_flag_cleared
   \<and> liveStreams camera_flag_cleared = [1]
   \<and> timers camera_flag_cleared = [(1, Interval (RunLiveDetection True) 3000)]
   \<and> detections camera_flag_cleared = JArr [cup, book]
   \<and> effects (fire v8_text 1 False ''F2'' (backend_replies (Parses (JObj [(''detections'', JArr [book])]))) camera_flag_cleared)
       = effects camera_flag_cleared @ [Captured ''F2'', GenerateContent (detectionRequest ''F2'')]
   \<and> detections (fire v8_text 1 False ''F2'' (backend_replies (Parses (JObj [(''detections'', JArr [book])]))) camera_flag_cleared)
       = JArr [book]
   \<and> error (fire v8_text 1 False ''F2'' (backend_replies (Parses (JObj [(''detections'', JArr [book])]))) camera_flag_cleared)
       = None
   \<and> fire v8_text 1 True ''F2'' (backend_replies (Parses (JObj [(''detections'', JArr [book])]))) camera_flag_cleared
       = camera_flag_cleared"
  by (simp add: camera_flag_cleared_def after_def controls_def run_defs)

subsection \<open>The confidence shown\<close>

lemma ulp_binade:
  assumes "2 powr of_int k \<le> x" and "x < 2 powr (of_int k + 1)"
  shows "ulp x = 2 powr (of_int k - 52)"
proof -
  have pos: "0 < x" using assms(1) by (smt (verit) powr_gt_zero)
  then have "\<lfloor>log 2 x\<rfloor> = k"
    using assms by (simp add: floor_log_eq_powr_iff)
  with pos show ?thesis by (simp add: ulp_def)
qed

lemma binary64_binade:
  assumes "2 powr of_int k \<le> x" and "x < 2 powr (of_int k + 1)"
  shows "binary64 x = of_int (round_half_even (x / 2 powr (of_int k - 52))) * 2 powr (of_int k - 52)"
proof -
  have "0 < x" using assms(1) by (smt (verit) powr_gt_zero)
  then show ?thesis
    by (simp add: binary64_def ulp_binade [OF assms])
qed

lemma binary64_1_2:
  assumes "1 \<le> x" and "x < 2"
  shows "binary64 x = of_int (round_half_even (x * 2 ^ 52)) / 2 ^ 52"
  using binary64_binade [of 0 x] assms by (simp add: powr_minus_divide)

lemma round_half_even_bounds:
  "\<lfloor>x\<rfloor> \<le> round_half_even x" "round_half_even x \<le> \<lfloor>x\<rfloor> + 1"
  by (simp_all add: round_half_even_def Let_def)

lemma round_half_even_mono:
  assumes "x \<le> y"
  shows "round_half_even x \<le> round_half_even y"
proof (cases "\<lfloor>x\<rfloor> < \<lfloor>y\<rfloor>")
  case True
  have "round_half_even x \<le> \<lfloor>x\<rfloor> + 1" by (rule round_half_even_bounds)
  also have "\<dots> \<le> \<lfloor>y\<rfloor>" using True by simp
  also have "\<dots> \<le> round_half_even y" by (rule round_half_even_bounds)
  finally show ?thesis .
next
  case False
  with assms have "\<lfloor>x\<rfloor> = \<lfloor>y\<rfloor>"
    using floor_mono [of x y] by simp
  with assms show ?thesis
    by (simp add: round_half_even_def Let_def)
qed

lemma round_half_even_of_int: "round_half_even (of_int n) = n"
  by (simp add: round_half_even_def)

lemma binade:
  assumes "0 < x"
  shows "2 powr of_int \<lfloor>log 2 x\<rfloor> \<le> x" and "x < 2 powr (of_int \<lfloor>log 2 x\<rfloor> + 1)"
  using floor_log_eq_powr_iff [of x 2 "\<lfloor>log 2 x\<rfloor>"] assms by simp_all

lemma binary64_bounds:
  assumes "0 < x"
  shows "2 powr of_int \<lfloor>log 2 x\<rfloor> \<le> binary64 x"
    and "binary64 x \<le> 2 powr (of_int \<lfloor>log 2 x\<rfloor> + 1)"
proof -
  let ?k = "\<lfloor>log 2 x\<rfloor>"
  let ?u = "(2::real) powr (of_int ?k - 52)"
  have u: "ulp x = ?u" "0 < ?u" using assms by (simp_all add: ulp_def)
  have lo: "2 powr real_of_int ?k = of_int (2 ^ 52) * ?u"
    and hi: "2 powr (real_of_int ?k + 1) = of_int (2 ^ 53) * ?u"
    by (simp_all add: powr_diff powr_add)
  have "of_int (2 ^ 52) \<le> x / ?u"
    using binade(1) [OF assms] u(2) unfolding lo by (simp add: pos_le_divide_eq)
  then have "2 ^ 52 \<le> round_half_even (x / ?u)"
    using round_half_even_mono [of "of_int (2 ^ 52)" "x / ?u"]
    by (simp only: round_half_even_of_int)
  then have "of_int (2 ^ 52) * ?u \<le> of_int (round_half_even (x / ?u)) * ?u"
    using u(2) by (simp only: mult_le_cancel_right_pos of_int_le_iff)
  then show "2 powr of_int ?k \<le> binary64 x"
    using assms by (simp add: binary64_def u(1) lo)
  have "x / ?u \<le> of_int (2 ^ 53)"
    using binade(2) [OF assms] u(2) unfolding hi by (simp add: pos_divide_le_eq)
  then have "round_half_even (x / ?u) \<le> 2 ^ 53"
    using round_half_even_mono [of "x / ?u" "of_int (2 ^ 53)"]
    by (simp only: round_half_even_of_int)
  then have "of_int (round_half_even (x / ?u)) * ?u \<le> of_int (2 ^ 53) * ?u"
    using u(2) by (simp only: mult_le_cancel_right_pos of_int_le_iff)
  then show "binary64 x \<le> 2 powr (of_int ?k + 1)"
    using assms by (simp add: binary64_def u(1) hi)
qed

lemma binary64_mono:
  assumes "0 \<le> x" and "x \<le> y"
  shows "binary64 x \<le> binary64 y"
proof (cases "x = 0")
  case True
  show ?thesis
  proof (cases "y = 0")
    case True
    with \<open>x = 0\<close> show ?thesis by simp
  next
    case False
    with assms have "0 < y" by simp
    from binary64_bounds(1) [OF this] have "0 \<le> binary64 y"
      by (smt (verit) powr_gt_zero)
    with \<open>x = 0\<close> show ?thesis by (simp add: binary64_def)
  qed
next
  case False
  with assms have x: "0 < x" and y: "0 < y" by simp_all
  let ?kx = "\<lfloor>log 2 x\<rfloor>" and ?ky = "\<lfloor>log 2 y\<rfloor>"
  have "log 2 x \<le> log 2 y" using x assms(2) by simp
  then have k: "?kx \<le> ?ky" by (rule floor_mono)
  show ?thesis
  proof (cases "?kx = ?ky")
    case True
    let ?u = "(2::real) powr (of_int ?kx - 52)"
    have u: "0 < ?u" by simp
    have "x / ?u \<le> y / ?u" using assms(2) u by (simp add: divide_right_mono)
    then have "round_half_even (x / ?u) \<le> round_half_even (y / ?u)"
      by (rule round_half_even_mono)
    then have "of_int (round_half_even (x / ?u)) * ?u \<le> of_int (round_half_even (y / ?u)) * ?u"
      using u by (simp only: mult_le_cancel_right_pos of_int_le_iff)
    then show ?thesis
      using x y True by (simp add: binary64_def ulp_def)
  next
    case False
    with k have "of_int ?kx + 1 \<le> (of_int ?ky :: real)" by linarith
    then have "2 powr (of_int ?kx + 1) \<le> (2::real) powr of_int ?ky"
      by (simp only: powr_le_cancel_iff)
    with binary64_bounds(2) [OF x] binary64_bounds(1) [OF y] show ?thesis by linarith
  qed
qed

lemma binary64_0015: "binary64 (15 / 1000) = 1080863910568919 / 2 ^ 56"
proof -
  have r: "round_half_even (216172782113783808 / 25) = 8646911284551352"
    by (simp add: round_half_even_def Let_def)
  have "binary64 (15 / 1000)
          = of_int (round_half_even (15 / 1000 / 2 powr (of_int (- 7) - 52))) * 2 powr (of_int (- 7) - 52)"
    by (rule binary64_binade) (simp_all add: powr_minus_divide)
  also have "15 / 1000 / 2 powr (of_int (- 7) - 52) = (216172782113783808 / 25 :: real)"
    by (simp add: powr_minus_divide)
  finally show ?thesis by (simp add: r powr_minus_divide)
qed

lemma binary64_exact:
  assumes "0 < x" and "x / ulp x = of_int q"
  shows "binary64 x = x"
proof -
  have "0 < ulp x" by (simp add: ulp_def)
  then have "x / ulp x * ulp x = x" by simp
  with assms show ?thesis
    by (simp add: binary64_def round_half_even_of_int)
qed

lemma binary64_half_integer:
  assumes "m \<le> 200"
  shows "binary64 (real m / 2) = real m / 2"
proof (cases "m = 0")
  case True
  then show ?thesis by (simp add: binary64_def)
next
  case False
  let ?x = "real m / 2"
  let ?k = "\<lfloor>log 2 ?x\<rfloor>"
  have pos: "0 < ?x" using False by simp
  have "2 powr of_int ?k \<le> ?x" using pos by (rule binade)
  also have "?x < 2 powr of_int 52" using assms by simp
  finally have "?k < 52" by (simp only: powr_less_cancel_iff of_int_less_iff)
  define j where "j = nat (51 - ?k)"
  with \<open>?k < 52\<close> have j: "51 - ?k = int j" by simp
  have "?x / ulp ?x = real m * 2 powr (- 1) / 2 powr (of_int ?k - 52)"
    using pos by (simp add: ulp_def powr_minus_divide)
  also have "\<dots> = real m * 2 powr (of_int (51 - ?k))"
    by (simp add: powr_diff powr_minus_divide)
  also have "\<dots> = real m * 2 ^ j"
    unfolding j by (simp add: powr_realpow)
  also have "\<dots> = of_int (int m * 2 ^ j)" by simp
  finally show ?thesis by (rule binary64_exact [OF pos])
qed

lemma binary64_product_0015: "binary64 (1080863910568919 / 2 ^ 56 * 100) = 3 / 2"
proof -
  have r: "round_half_even (27021597764222975 / 4) = 6755399441055744"
    by (simp add: round_half_even_def Let_def)
  have "binary64 (1080863910568919 / 2 ^ 56 * 100)
          = of_int (round_half_even (1080863910568919 / 2 ^ 56 * 100 * 2 ^ 52)) / 2 ^ 52"
    by (rule binary64_1_2) simp_all
  also have "1080863910568919 / 2 ^ 56 * 100 * 2 ^ 52 = (27021597764222975 / 4 :: real)"
    by simp
  finally show ?thesis by (simp add: r)
qed

text \<open>
  C9, as stated: for a confidence \<open>c\<close> in \<open>[0, 1]\<close> the percentage shown is
  \<open>round (c * 100)\<close>. The double nearest to 0.015 is \<open>1080863910568919 / 2 ^ 56\<close>, a
  little less than 0.015; its product with 100 is a little less than 1.5 and rounds to
  1, but the product of doubles is 1.5 and the percentage shown is 2.
\<close>

theorem confidencePercent_not_round_of_exact_product:
  "(0::real) \<le> 1080863910568919 / 2 ^ 56
   \<and> (1080863910568919 / 2 ^ 56 :: real) \<le> 1
   \<and> binary64 (15 / 1000) = 1080863910568919 / 2 ^ 56
   \<and> binary64 (1080863910568919 / 2 ^ 56 * 100) = 3 / 2
   \<and> confidencePercent binary64 (1080863910568919 / 2 ^ 56) = 2
   \<and> round (1080863910568919 / 2 ^ 56 * 100 :: real) = 1"
proof -
  have shown: "confidencePercent binary64 (1080863910568919 / 2 ^ 56) = 2"
    unfolding confidencePercent_def binary64_product_0015 Math_round_def by simp
  have exactly: "round (1080863910568919 / 2 ^ 56 * 100 :: real) = 1"
    by (simp add: round_def)
  have "(0::real) \<le> 1080863910568919 / 2 ^ 56" "(1080863910568919 / 2 ^ 56 :: real) \<le> 1"
    by simp_all
  with binary64_0015 binary64_product_0015 shown exactly show ?thesis
    by (intro conjI)
qed

text \<open>
  C9, amended: for a confidence \<open>c\<close> in \<open>[0, 1]\<close>, the percentage shown is
  \<open>Math.round\<close> of the product of doubles \<open>c * 100\<close>. It lies between 0 and 100, and
  it is \<open>round (c * 100)\<close> or one more; it is one more only when the product of doubles
  is the half above \<open>round (c * 100)\<close>. This holds for every rounding \<open>fl\<close> of the
  product that is monotone and exact on the halves of the integers up to 200, as
  rounding to the nearest double is.
\<close>

theorem confidencePercent_rounded_in_range:
  assumes mono: "\<forall>x y. 0 \<le> x \<and> x \<le> y \<longrightarrow> fl x \<le> fl y"
    and exact: "\<forall>m::nat. m \<le> 200 \<longrightarrow> fl (real m / 2) = real m / 2"
    and lo: "0 \<le> c" and hi: "c \<le> 1"
  shows "confidencePercent fl c = round (fl (c * 100))
     \<and> 0 \<le> confidencePercent fl c \<and> confidencePercent fl c \<le> 100
     \<and> round (c * 100) \<le> confidencePercent fl c
     \<and> confidencePercent fl c \<le> round (c * 100) + 1
     \<and> (confidencePercent fl c \<noteq> round (c * 100) \<longrightarrow> fl (c * 100) = of_int (round (c * 100)) + 1 / 2)"
proof -
  let ?x = "c * 100"
  let ?n = "round ?x"
  have x: "0 \<le> ?x" "?x \<le> 100" using lo hi by simp_all
  have n: "0 \<le> ?n" "?n \<le> 100"
    using x by (simp_all add: round_def le_floor_iff floor_le_iff)
  have near: "of_int ?n - 1 / 2 \<le> ?x" "?x < of_int ?n + 1 / 2"
    unfolding round_def by linarith+
  have zero: "fl 0 = 0" using exact [rule_format, of 0] by simp
  have hundred: "fl 100 = 100" using exact [rule_format, of 200] by simp
  have range: "0 \<le> fl ?x" "fl ?x \<le> 100"
    using mono [rule_format, of 0 ?x] mono [rule_format, of ?x 100] x zero hundred by simp_all
  have below: "of_int ?n - 1 / 2 \<le> fl ?x"
  proof (cases "?n = 0")
    case True
    with range show ?thesis by simp
  next
    case False
    define m where "m = nat (2 * ?n - 1)"
    with False n have m: "2 * ?n - 1 = int m" "m \<le> 200" by simp_all
    have h: "of_int ?n - 1 / 2 = real m / 2"
    proof -
      have "real_of_int (2 * ?n - 1) = real m" using m(1) by simp
      then show ?thesis by simp
    qed
    have "fl (real m / 2) \<le> fl ?x"
      using mono [rule_format, of "real m / 2" ?x] near(1) h by simp
    then show ?thesis using exact [rule_format, of m] m(2) h by simp
  qed
  have above: "fl ?x \<le> of_int ?n + 1 / 2"
  proof (cases "?n = 100")
    case True
    with range show ?thesis by simp
  next
    case False
    define m where "m = nat (2 * ?n + 1)"
    with False n have m: "2 * ?n + 1 = int m" "m \<le> 200" by simp_all
    have h: "of_int ?n + 1 / 2 = real m / 2"
    proof -
      have "real_of_int (2 * ?n + 1) = real m" using m(1) by simp
      then show ?thesis by simp
    qed
    have "fl ?x \<le> fl (real m / 2)"
      using mono [rule_format, of ?x "real m / 2"] near(2) h x by simp
    then show ?thesis using exact [rule_format, of m] m(2) h by simp
  qed
  have shown: "confidencePercent fl c = \<lfloor>fl ?x + 1 / 2\<rfloor>"
    by (simp add: confidencePercent_def Math_round_def)
  have ge: "?n \<le> confidencePercent fl c"
    unfolding shown using below by (simp add: le_floor_iff)
  have le: "confidencePercent fl c \<le> ?n + 1"
    unfolding shown using above by (simp add: floor_le_iff)
  have half: "fl ?x = of_int ?n + 1 / 2" if "confidencePercent fl c \<noteq> ?n"
  proof -
    from that ge le have "confidencePercent fl c = ?n + 1" by linarith
    then have "of_int (?n + 1) \<le> fl ?x + 1 / 2"
      unfolding shown by (metis of_int_floor_le)
    with above show ?thesis by simp
  qed
  have "0 \<le> confidencePercent fl c" using ge n by linarith
  moreover have "confidencePercent fl c \<le> 100"
    unfolding shown using range by (simp add: floor_le_iff)
  moreover have "confidencePercent fl c = round (fl (c * 100))"
    by (simp add: shown round_def)
  ultimately show ?thesis using ge le half by blast
qed

theorem confidencePercent_rounded_in_range_witness:
  "confidencePercent binary64 (1080863910568919 / 2 ^ 56) = 2
   \<and> round (1080863910568919 / 2 ^ 56 * 100 :: real) = 1
   \<and> binary64 (1080863910568919 / 2 ^ 56 * 100) = 3 / 2
   \<and> 0 \<le> confidencePercent binary64 1 \<and> confidencePercent binary64 1 \<le> 100"
proof -
  have mono: "\<forall>x y. 0 \<le> x \<and> x \<le> y \<longrightarrow> binary64 x \<le> binary64 y"
    by (simp add: binary64_mono)
  have exact: "\<forall>m::nat. m \<le> 200 \<longrightarrow> binary64 (real m / 2) = real m / 2"
    by (simp add: binary64_half_integer)
  have c: "(0::real) \<le> 1080863910568919 / 2 ^ 56" "(1080863910568919 / 2 ^ 56 :: real) \<le> 1"
    by simp_all
  have exactly: "round (1080863910568919 / 2 ^ 56 * 100 :: real) = 1"
    by (simp add: round_def)
  have product: "binary64 (1080863910568919 / 2 ^ 56 * 100) = 3 / 2"
    by (rule binary64_product_0015)
  note small = confidencePercent_rounded_in_range [OF mono exact c]
  note one = confidencePercent_rounded_in_range [OF mono exact, of 1]
  have "confidencePercent binary64 (1080863910568919 / 2 ^ 56) = round (3 / 2 :: real)"
    using small unfolding product by (rule conjunct1)
  then have shown: "confidencePercent binary64 (1080863910568919 / 2 ^ 56) = 2"
    by (simp add: round_def)
  have range: "0 \<le> confidencePercent binary64 1 \<and> confidencePercent binary64 1 \<le> 100"
    using one by simp
  from shown exactly product range show ?thesis
    by (intro conjI) simp_all
qed

subsection \<open>A detection response without detections\<close>

text \<open>
  C10, as stated: every response that parses as JSON and has no \<open>detections\<close> member
  gives the empty array. The body \<open>null\<close> parses as JSON and has no member at all, and
  \<open>detectObjectsInFrame\<close> fails on it: reading \<open>result.detections\<close> throws.
\<close>

theorem detectObjectsInFrame_null_body_fails:
  "field JNull ''detections'' = None
   \<and> snd (detectObjectsInFrame v8_text (backend_replies (Parses JNull)) ''F'')
       = Inl (JsError (''Failed to detect objects with Gemini API: '' @ v8_text ''detections''))"
  by (simp add: detectObjectsInFrame_def backend_replies_def)

text \<open>
  C10, amended: for every response that parses to a JSON value other than \<open>null\<close> and
  whose \<open>detections\<close> member is absent or null, \<open>detectObjectsInFrame\<close> returns the
  empty array and raises nothing; what it returns and what it does is what it returns
  and does for the response \<open>{"detections": []}\<close>.
\<close>

theorem detectObjectsInFrame_missing_detections_empty:
  assumes "ai (detectionRequest f) = Inr (Parses v)" and "v \<noteq> JNull"
    and "field v ''detections'' = None \<or> field v ''detections'' = Some JNull"
  shows "detectObjectsInFrame te ai f = ([GenerateContent (detectionRequest f)], Inr (JArr []))
     \<and> detectObjectsInFrame te ai f
         = detectObjectsInFrame te (backend_replies (Parses (JObj [(''detections'', JArr [])]))) f"
  using assms
  by (cases v) (auto simp: detectObjectsInFrame_def or_empty_array_def backend_replies_def)

theorem detectObjectsInFrame_missing_detections_empty_witness:
  "snd (detectObjectsInFrame v8_text (backend_replies (Parses (JObj [(''objectName'', JStr ''cup'')]))) ''F'')
       = Inr (JArr [])
   \<and> snd (detectObjectsInFrame v8_text (backend_replies (Parses (JObj [(''detections'', JNull)]))) ''F'')
       = Inr (JArr [])"
  using detectObjectsInFrame_missing_detections_empty
          [where te = v8_text and ai = "backend_replies (Parses (JObj [(''objectName'', JStr ''cup'')]))"
             and f = "''F''" and v = "JObj [(''objectName'', JStr ''cup'')]"]
        detectObjectsInFrame_missing_detections_empty
          [where te = v8_text and ai = "backend_replies (Parses (JObj [(''detections'', JNull)]))"
             and f = "''F''" and v = "JObj [(''detections'', JNull)]"]
  by (simp add: backend_replies_def)

end
